theory Spec2Isabelle
  imports Complex_Main "HOL-Library.AList" "HOL-Library.Sublist"
begin

section \<open>Python values and the operations the checks apply to them\<close>

text \<open>
  The remote client hands back parsed JSON: \<open>None\<close>, booleans, integers, floats, strings,
  lists and dictionaries with string keys. A dictionary is an association list in insertion
  order. The source never does arithmetic on a float; only its truth value and its
  comparison with \<open>1\<close> are read, so a float carries the real number it denotes.
\<close>

datatype pyval =
    PNone
  | PBool bool
  | PInt int
  | PFloat real
  | PStr string
  | PList "pyval list"
  | PDict "(string \<times> pyval) list"

text \<open>
  The exceptions of the model are the subclasses of \<open>Exception\<close> that the operations below
  raise, and \<open>LibraryError\<close> for whatever else (again below \<open>Exception\<close>) the client library
  raises: network failures, HTTP errors, rejected credentials. Every handler of the source is
  \<open>except Exception\<close>; interrupts of the interpreter (\<open>KeyboardInterrupt\<close>, \<open>SystemExit\<close>)
  are outside the model.
\<close>

datatype exn = KeyError | IndexError | TypeError | ValueError | AttributeError | LibraryError string

text \<open>Python's truth value of an object: \<open>if x\<close>, \<open>x and y\<close>, \<open>not x\<close>.\<close>

fun truthy :: "pyval \<Rightarrow> bool" where
  "truthy PNone = False"
| "truthy (PBool b) = b"
| "truthy (PInt i) = (i \<noteq> 0)"
| "truthy (PFloat x) = (x \<noteq> 0)"
| "truthy (PStr s) = (s \<noteq> [])"
| "truthy (PList xs) = (xs \<noteq> [])"
| "truthy (PDict kvs) = (kvs \<noteq> [])"

text \<open>\<open>v['k']\<close>: only a dictionary can be subscripted by a string.\<close>

fun subscript :: "pyval \<Rightarrow> string \<Rightarrow> exn + pyval" where
  "subscript (PDict kvs) k = (case map_of kvs k of None \<Rightarrow> Inl KeyError | Some v \<Rightarrow> Inr v)"
| "subscript _ k = Inl TypeError"

text \<open>
  \<open>v[0]\<close>: the first element of a list, the first character of a string; a dictionary of
  JSON has no key \<open>0\<close>.
\<close>

fun first :: "pyval \<Rightarrow> exn + pyval" where
  "first (PList xs) = (case xs of [] \<Rightarrow> Inl IndexError | x # _ \<Rightarrow> Inr x)"
| "first (PStr s) = (case s of [] \<Rightarrow> Inl IndexError | c # _ \<Rightarrow> Inr (PStr [c]))"
| "first (PDict kvs) = Inl KeyError"
| "first _ = Inl TypeError"

text \<open>
  \<open>'k' in v\<close>: a key of a dictionary, an element of a list, a substring of a string; the
  other values are not iterable.
\<close>

fun contains :: "string \<Rightarrow> pyval \<Rightarrow> exn + bool" where
  "contains k (PDict kvs) = Inr (map_of kvs k \<noteq> None)"
| "contains k (PList xs) = Inr (PStr k \<in> set xs)"
| "contains k (PStr s) = Inr (sublist k s)"
| "contains k _ = Inl TypeError"

text \<open>\<open>v.get('k', d)\<close>: a method of dictionaries only.\<close>

fun get_default :: "pyval \<Rightarrow> string \<Rightarrow> pyval \<Rightarrow> exn + pyval" where
  "get_default (PDict kvs) k d = Inr (case map_of kvs k of None \<Rightarrow> d | Some v \<Rightarrow> v)"
| "get_default _ k d = Inl AttributeError"

text \<open>
  \<open>v[:3]\<close>, and the elements a \<open>for\<close> loop draws from the slice. A dictionary cannot be sliced
  (\<open>TypeError\<close> up to Python 3.11, \<open>KeyError\<close> since slices are hashable).
\<close>

fun slice3 :: "pyval \<Rightarrow> exn + pyval" where
  "slice3 (PList xs) = Inr (PList (take 3 xs))"
| "slice3 (PStr s) = Inr (PStr (take 3 s))"
| "slice3 (PDict kvs) = Inl KeyError"
| "slice3 _ = Inl TypeError"

fun iterate :: "pyval \<Rightarrow> exn + pyval list" where
  "iterate (PList xs) = Inr xs"
| "iterate (PStr s) = Inr (map (\<lambda>c. PStr [c]) s)"
| "iterate (PDict kvs) = Inr (map (\<lambda>(k, v). PStr k) kvs)"
| "iterate _ = Inl TypeError"

text \<open>
  An f-string field with a numeric format (\<open>{x:,}\<close>, \<open>{x:.2f}\<close>) accepts numbers, booleans
  among them, and raises on everything else.
\<close>

fun numeric :: "pyval \<Rightarrow> exn + pyval" where
  "numeric (PInt i) = Inr (PInt i)"
| "numeric (PFloat x) = Inr (PFloat x)"
| "numeric (PBool b) = Inr (PBool b)"
| "numeric (PStr s) = Inl ValueError"
| "numeric _ = Inl TypeError"

text \<open>\<open>v == 1\<close>.\<close>

fun equals_one :: "pyval \<Rightarrow> bool" where
  "equals_one (PInt i) = (i = 1)"
| "equals_one (PFloat x) = (x = 1)"
| "equals_one (PBool b) = b"
| "equals_one _ = False"

text \<open>Sequencing of expressions that may raise.\<close>

definition and_then :: "exn + 'a \<Rightarrow> ('a \<Rightarrow> exn + 'b) \<Rightarrow> exn + 'b" where
  "and_then r f = (case r of Inl e \<Rightarrow> Inl e | Inr x \<Rightarrow> f x)"

section \<open>The library, the process and the tester object\<close>

text \<open>
  A client (\<open>spotipy.Spotify\<close>) answers four requests; each answer is a value or an
  exception. Within one run every request of the source has different arguments, so a
  function of the arguments describes any behaviour of the remote service.
\<close>

record client =
  search :: "string \<Rightarrow> string \<Rightarrow> int \<Rightarrow> exn + pyval"
  playlist :: "string \<Rightarrow> exn + pyval"
  playlist_tracks :: "string \<Rightarrow> int \<Rightarrow> exn + pyval"
  audio_features :: "pyval list \<Rightarrow> exn + pyval"

text \<open>
  The modules the script imports are parameters of the model: what \<open>load_dotenv\<close> does to
  the environment, and the two constructors of \<open>spotipy\<close>, each of which builds its object
  or raises. \<open>'a\<close> is the type of the authenticator object. \<open>load_dotenv\<close>, \<open>os.getenv\<close> and
  \<open>print\<close> are taken not to raise.
\<close>

record 'a library =
  load_dotenv :: "(string \<rightharpoonup> string) \<Rightarrow> (string \<rightharpoonup> string)"
  SpotifyClientCredentials :: "string option \<Rightarrow> string option \<Rightarrow> exn + 'a"
  Spotify :: "'a \<Rightarrow> int \<Rightarrow> int option \<Rightarrow> exn + client"

text \<open>Calls into the library, as they are observed from outside.\<close>

datatype request =
    NewCredentials "string option" "string option"
  | NewClient int "int option"
  | Search string string int
  | Playlist string
  | PlaylistTracks string int
  | AudioFeatures "pyval list"

text \<open>
  What the process does that an observer sees, in order: the lines it prints and the calls
  it makes. A printed line is recorded by its kind, the glyph left out of the text (a bullet
  is written as an asterisk, a leading empty line is dropped):
  \<open>Header\<close> is the three lines of \<open>print_header\<close>, \<open>Success\<close>, \<open>Failure\<close> and \<open>Info\<close> are the
  lines that start with the check mark, the cross and the information sign (a \<open>Failure\<close>
  carries the exception its text ends with), \<open>Line\<close> is any other line, as the template of its
  f-string and the values of its fields, \<open>Row\<close> is a row of the summary (the name of the
  entry and its outcome) and \<open>Overall\<close> the line with the two counts.
\<close>

datatype event =
    Header string
  | Success string
  | Failure string "exn option"
  | Info string
  | Line string "pyval list"
  | Row string bool
  | Overall int int
  | Call request

record process =
  environ :: "string \<rightharpoonup> string"
  trace :: "event list"

text \<open>
  The object of class \<open>SpotifyAPITester\<close>: \<open>self.results\<close>, a dictionary in insertion order,
  and \<open>self.sp\<close>, which is \<open>None\<close> until a client is assigned.
\<close>

record tester = process +
  results :: "(string \<times> bool) list"
  sp :: "client option"

text \<open>
  A statement of the program takes the state to a value or an exception and the state it
  leaves. What has been printed or assigned before an exception stays.
\<close>

type_synonym ('s, 'a) py = "'s \<Rightarrow> (exn + 'a) \<times> 's"

definition ret :: "'a \<Rightarrow> ('s, 'a) py" where
  "ret x = (\<lambda>s. (Inr x, s))"

definition lift :: "exn + 'a \<Rightarrow> ('s, 'a) py" where
  "lift r = (\<lambda>s. (r, s))"

definition bind_py :: "('s, 'a) py \<Rightarrow> ('a \<Rightarrow> ('s, 'b) py) \<Rightarrow> ('s, 'b) py" where
  "bind_py m f = (\<lambda>s. case m s of (Inl e, s') \<Rightarrow> (Inl e, s') | (Inr x, s') \<Rightarrow> f x s')"

definition then_py :: "('s, 'a) py \<Rightarrow> ('s, 'b) py \<Rightarrow> ('s, 'b) py" where
  "then_py m n = bind_py m (\<lambda>_. n)"

definition try_except :: "('s, 'a) py \<Rightarrow> (exn \<Rightarrow> ('s, 'a) py) \<Rightarrow> ('s, 'a) py" where
  "try_except m h = (\<lambda>s. case m s of (Inl e, s') \<Rightarrow> h e s' | (Inr x, s') \<Rightarrow> (Inr x, s'))"

fun for_each :: "('a \<Rightarrow> ('s, unit) py) \<Rightarrow> 'a list \<Rightarrow> ('s, unit) py" where
  "for_each f [] = ret ()"
| "for_each f (x # xs) = then_py (f x) (for_each f xs)"

definition emit :: "event \<Rightarrow> ('z process_scheme, unit) py" where
  "emit ev = (\<lambda>s. (Inr (), s\<lparr>trace := trace s @ [ev]\<rparr>))"

section \<open>The statements the checks are made of\<close>

definition print_header :: "string \<Rightarrow> ('z process_scheme, unit) py" where
  "print_header message = emit (Header message)"

definition print_success :: "string \<Rightarrow> ('z process_scheme, unit) py" where
  "print_success message = emit (Success message)"

definition print_error :: "string \<Rightarrow> exn option \<Rightarrow> ('z process_scheme, unit) py" where
  "print_error message e = emit (Failure message e)"

definition print_info :: "string \<Rightarrow> ('z process_scheme, unit) py" where
  "print_info message = emit (Info message)"

definition print_line :: "string \<Rightarrow> pyval list \<Rightarrow> ('z process_scheme, unit) py" where
  "print_line template vals = emit (Line template vals)"

text \<open>\<open>load_dotenv()\<close> rewrites the environment of the process.\<close>

definition call_load_dotenv :: "'a library \<Rightarrow> ('z process_scheme, unit) py" where
  "call_load_dotenv lib = (\<lambda>s. (Inr (), s\<lparr>environ := load_dotenv lib (environ s)\<rparr>))"

text \<open>
  \<open>os.getenv(a) or os.getenv(b)\<close>: the first operand when it is a non-empty string, else
  the second, which may be \<open>None\<close> or empty.
\<close>

definition present :: "string option \<Rightarrow> bool" where
  "present v = (case v of None \<Rightarrow> False | Some x \<Rightarrow> x \<noteq> [])"

definition credential :: "(string \<rightharpoonup> string) \<Rightarrow> string \<Rightarrow> string \<Rightarrow> string option" where
  "credential env a b = (if present (env a) then env a else env b)"

definition getenv_or :: "string \<Rightarrow> string \<Rightarrow> ('z process_scheme, string option) py" where
  "getenv_or a b = (\<lambda>s. (Inr (credential (environ s) a b), s))"

text \<open>\<open>self.results[k] = v\<close>.\<close>

definition set_result :: "string \<Rightarrow> bool \<Rightarrow> (tester, unit) py" where
  "set_result k v = (\<lambda>s. (Inr (), s\<lparr>results := AList.update k v (results s)\<rparr>))"

text \<open>\<open>self.sp = c\<close>.\<close>

definition set_sp :: "client \<Rightarrow> (tester, unit) py" where
  "set_sp c = (\<lambda>s. (Inr (), s\<lparr>sp := Some c\<rparr>))"

text \<open>The two constructors. A call is recorded, then it answers.\<close>

definition new_credentials ::
    "'a library \<Rightarrow> string option \<Rightarrow> string option \<Rightarrow> ('z process_scheme, 'a) py" where
  "new_credentials lib client_id client_secret =
     then_py (emit (Call (NewCredentials client_id client_secret)))
             (lift (SpotifyClientCredentials lib client_id client_secret))"

definition new_client ::
    "'a library \<Rightarrow> 'a \<Rightarrow> int \<Rightarrow> int option \<Rightarrow> ('z process_scheme, client) py" where
  "new_client lib auth_manager requests_timeout retries =
     then_py (emit (Call (NewClient requests_timeout retries)))
             (lift (Spotify lib auth_manager requests_timeout retries))"

text \<open>The four requests to a client.\<close>

definition call_search ::
    "client \<Rightarrow> string \<Rightarrow> string \<Rightarrow> int \<Rightarrow> ('z process_scheme, pyval) py" where
  "call_search c q ty limit = then_py (emit (Call (Search q ty limit))) (lift (search c q ty limit))"

definition call_playlist :: "client \<Rightarrow> string \<Rightarrow> ('z process_scheme, pyval) py" where
  "call_playlist c pid = then_py (emit (Call (Playlist pid))) (lift (playlist c pid))"

definition call_playlist_tracks ::
    "client \<Rightarrow> string \<Rightarrow> int \<Rightarrow> ('z process_scheme, pyval) py" where
  "call_playlist_tracks c pid limit =
     then_py (emit (Call (PlaylistTracks pid limit))) (lift (playlist_tracks c pid limit))"

definition call_audio_features :: "client \<Rightarrow> pyval list \<Rightarrow> ('z process_scheme, pyval) py" where
  "call_audio_features c ids = then_py (emit (Call (AudioFeatures ids))) (lift (audio_features c ids))"

text \<open>
  \<open>self.sp.m(...)\<close>: looking a method up on \<open>None\<close> raises \<open>AttributeError\<close> before any call
  is made.
\<close>

definition self_sp :: "(client \<Rightarrow> (tester, 'b) py) \<Rightarrow> (tester, 'b) py" where
  "self_sp m = (\<lambda>s. case sp s of None \<Rightarrow> (Inl AttributeError, s) | Some c \<Rightarrow> m c s)"

text \<open>
  A chain of subscripts, \<open>v['a']['b'][0]\<close>, read from the left; the first that fails raises.
\<close>

datatype selector = Key string | Zero

fun select :: "pyval \<Rightarrow> selector \<Rightarrow> exn + pyval" where
  "select v (Key k) = subscript v k"
| "select v Zero = first v"

fun path :: "pyval \<Rightarrow> selector list \<Rightarrow> exn + pyval" where
  "path v [] = Inr v"
| "path v (x # xs) = and_then (select v x) (\<lambda>w. path w xs)"

text \<open>The condition \<open>v and 'k' in v\<close>: the membership test is reached only for a true \<open>v\<close>.\<close>

definition true_and_has :: "pyval \<Rightarrow> string \<Rightarrow> exn + bool" where
  "true_and_has v k = (if truthy v then contains k v else Inr False)"

section \<open>The checks\<close>

text \<open>
  A check returns \<open>Some True\<close> or \<open>Some False\<close> where the source returns \<open>True\<close> or \<open>False\<close>, and
  \<open>None\<close> where it falls off the end of the function, which in Python returns \<open>None\<close>. The
  \<open>try\<close> block of a method \<open>test_x\<close> is the definition \<open>x_body\<close>; the method is its header, the
  block and the handler.
\<close>

definition test_environment_variables :: "'a library \<Rightarrow> (tester, bool option) py" where
  "test_environment_variables lib =
     then_py (print_header ''Testing Environment Variables'')
    (then_py (call_load_dotenv lib)
    (bind_py (getenv_or ''CLIENT_ID'' ''SPOTIFY_CLIENT_ID'') (\<lambda>client_id.
     bind_py (getenv_or ''CLIENT_SECRET'' ''SPOTIFY_CLIENT_SECRET'') (\<lambda>client_secret.
     then_py (print_line ''CLIENT_ID: {}''
                [PStr (if present client_id then ''Found'' else ''Missing'')])
    (then_py (print_line ''CLIENT_SECRET: {}''
                [PStr (if present client_secret then ''Found'' else ''Missing'')])
    (if present client_id \<and> present client_secret then
       then_py (print_success ''All environment variables are set!'')
      (then_py (set_result ''environment'' True)
      (ret (Some True)))
     else
       then_py (print_error ''Missing environment variables!'' None)
      (then_py (print_info ''Please check your .env file'')
      (ret (Some False)))))))))"

definition authentication_body :: "'a library \<Rightarrow> (tester, bool option) py" where
  "authentication_body lib =
      (bind_py (getenv_or ''CLIENT_ID'' ''SPOTIFY_CLIENT_ID'') (\<lambda>client_id.
       bind_py (getenv_or ''CLIENT_SECRET'' ''SPOTIFY_CLIENT_SECRET'') (\<lambda>client_secret.
       bind_py (new_credentials lib client_id client_secret) (\<lambda>auth_manager.
       bind_py (new_client lib auth_manager 10 (Some 1)) (\<lambda>c.
       then_py (set_sp c)
      (then_py (print_success ''Authentication successful!'')
      (then_py (set_result ''authentication'' True)
      (ret (Some True)))))))))"

definition test_authentication :: "'a library \<Rightarrow> (tester, bool option) py" where
  "test_authentication lib =
     then_py (print_header ''Testing Authentication'')
    (try_except (authentication_body lib)
      (\<lambda>e. then_py (print_error ''Authentication failed: '' (Some e)) (ret (Some False))))"

definition api_connection_body :: "(tester, bool option) py" where
  "api_connection_body =
      (bind_py (self_sp (\<lambda>c. call_search c ''artist:Ed Sheeran'' ''track'' 1)) (\<lambda>results.
       bind_py (lift (true_and_has results ''tracks'')) (\<lambda>found.
       if found then
         bind_py (lift (path results [Key ''tracks'', Key ''items'', Zero])) (\<lambda>track.
         then_py (print_success ''API connection successful!'')
        (bind_py (lift (subscript track ''name'')) (\<lambda>name.
         then_py (print_line ''   Test track: {}'' [name])
        (bind_py (lift (path track [Key ''artists'', Zero, Key ''name''])) (\<lambda>artist.
         then_py (print_line ''   Artist: {}'' [artist])
        (bind_py (lift (subscript track ''duration_ms'')) (\<lambda>duration.
         then_py (print_line ''   Duration: {}ms'' [duration])
        (then_py (set_result ''api_connection'' True)
        (ret (Some True))))))))))
       else
         then_py (print_error ''No results returned from API'' None)
        (ret (Some False)))))"

definition test_api_connection :: "(tester, bool option) py" where
  "test_api_connection =
     then_py (print_header ''Testing API Connection'')
    (try_except api_connection_body
      (\<lambda>e. then_py (print_error ''API connection test failed: '' (Some e)) (ret (Some False))))"

definition playlist_id :: string where
  "playlist_id = ''37i9dQZEVXbMDoHDwVN2tF''"

text \<open>The body of the loop over \<open>enumerate(tracks['items'][:3])\<close>.\<close>

definition sample_track :: "nat \<times> pyval \<Rightarrow> (tester, unit) py" where
  "sample_track = (\<lambda>(i, item).
     bind_py (lift (subscript item ''track'')) (\<lambda>track.
     bind_py (lift (subscript track ''name'')) (\<lambda>name.
     bind_py (lift (path track [Key ''artists'', Zero, Key ''name''])) (\<lambda>artist.
     print_line ''     {}. {} - {}'' [PInt (int i + 1), name, artist]))))"

definition playlist_access_body :: "(tester, bool option) py" where
  "playlist_access_body =
      (bind_py (self_sp (\<lambda>c. call_playlist c playlist_id)) (\<lambda>playlist.
       if truthy playlist then
         then_py (print_success ''Playlist access successful!'')
        (bind_py (lift (subscript playlist ''name'')) (\<lambda>name.
         then_py (print_line ''   Playlist: {}'' [name])
        (bind_py (lift (get_default playlist ''description'' (PStr ''No description'')))
           (\<lambda>description.
         then_py (print_line ''   Description: {}'' [description])
        (bind_py (lift (and_then (path playlist [Key ''followers'', Key ''total'']) numeric))
           (\<lambda>followers.
         then_py (print_line ''   Followers: {:,}'' [followers])
        (bind_py (lift (path playlist [Key ''tracks'', Key ''total''])) (\<lambda>total.
         then_py (print_line ''   Tracks: {}'' [total])
        (bind_py (lift (subscript playlist ''public'')) (\<lambda>public.
         then_py (print_line ''   Public: {}'' [public])
        (bind_py (self_sp (\<lambda>c. call_playlist_tracks c playlist_id 3)) (\<lambda>tracks.
         bind_py (lift (true_and_has tracks ''items'')) (\<lambda>found.
         then_py
           (if found then
              then_py (print_line ''   Sample tracks:'' [])
             (bind_py (lift (and_then (subscript tracks ''items'')
                                (\<lambda>items. and_then (slice3 items) iterate))) (\<lambda>items.
              for_each sample_track (List.enumerate 0 items)))
            else ret ())
        (then_py (set_result ''playlist_access'' True)
        (ret (Some True))))))))))))))))
       else ret None))"

definition test_playlist_access :: "(tester, bool option) py" where
  "test_playlist_access =
     then_py (print_header ''Testing Playlist Access'')
    (try_except playlist_access_body
      (\<lambda>e. then_py (print_error ''Playlist access test failed: '' (Some e)) (ret (Some False))))"

definition search_queries :: "(string \<times> string) list" where
  "search_queries =
     [(''Dua Lipa'', ''artist''),
      (''Blinding Lights'', ''track''),
      (''Today's Top Hits'', ''playlist''),
      (''Future Nostalgia'', ''album'')]"

text \<open>The line printed for the first item of a search, by the type searched for.\<close>

definition print_item :: "string \<Rightarrow> pyval \<Rightarrow> (tester, unit) py" where
  "print_item ty item =
     (if ty = ''artist'' then
        bind_py (lift (subscript item ''name'')) (\<lambda>name.
        bind_py (lift (and_then (path item [Key ''followers'', Key ''total'']) numeric)) (\<lambda>total.
        print_line ''   Artist: {} - {:,} followers'' [name, total]))
      else if ty = ''track'' then
        bind_py (lift (subscript item ''name'')) (\<lambda>name.
        bind_py (lift (path item [Key ''artists'', Zero, Key ''name''])) (\<lambda>artist.
        print_line ''   Track: {} - {}'' [name, artist]))
      else if ty = ''playlist'' then
        bind_py (lift (subscript item ''name'')) (\<lambda>name.
        bind_py (lift (path item [Key ''owner'', Key ''display_name''])) (\<lambda>owner.
        print_line ''   Playlist: {} - {}'' [name, owner]))
      else if ty = ''album'' then
        bind_py (lift (subscript item ''name'')) (\<lambda>name.
        bind_py (lift (path item [Key ''artists'', Zero, Key ''name''])) (\<lambda>artist.
        print_line ''   Album: {} - {}'' [name, artist]))
      else ret ())"

text \<open>The body of the loop over \<open>search_queries\<close>.\<close>

definition search_one :: "string \<times> string \<Rightarrow> (tester, unit) py" where
  "search_one = (\<lambda>(q, ty).
     bind_py (self_sp (\<lambda>c. call_search c q ty 1)) (\<lambda>results.
     bind_py (lift (true_and_has results (ty @ ''s''))) (\<lambda>found.
     if found then
       bind_py (lift (path results [Key (ty @ ''s''), Key ''items''])) (\<lambda>items.
       if truthy items then
         bind_py (lift (first items)) (\<lambda>item. print_item ty item)
       else ret ())
     else ret ())))"

definition search_functionality_body :: "(tester, bool option) py" where
  "search_functionality_body =
      (then_py (for_each search_one search_queries)
      (then_py (print_success ''Search functionality working!'')
      (then_py (set_result ''search_functionality'' True)
      (ret (Some True)))))"

definition test_search_functionality :: "(tester, bool option) py" where
  "test_search_functionality =
     then_py (print_header ''Testing Search Functionality'')
    (try_except search_functionality_body
      (\<lambda>e. then_py (print_error ''Search functionality test failed: '' (Some e))
             (ret (Some False))))"

text \<open>The condition \<open>results and results['tracks']['items']\<close>.\<close>

definition true_and_items :: "pyval \<Rightarrow> exn + bool" where
  "true_and_items v =
     (if truthy v then and_then (path v [Key ''tracks'', Key ''items'']) (\<lambda>items. Inr (truthy items))
      else Inr False)"

definition audio_features_body :: "(tester, bool option) py" where
  "audio_features_body =
      (bind_py (self_sp (\<lambda>c. call_search c ''track:Blinding Lights artist:The Weeknd'' ''track'' 1))
         (\<lambda>results.
       bind_py (lift (true_and_items results)) (\<lambda>found.
       if found then
         bind_py (lift (path results [Key ''tracks'', Key ''items'', Zero, Key ''id''])) (\<lambda>track_id.
         bind_py (self_sp (\<lambda>c. call_audio_features c [track_id])) (\<lambda>answer.
         bind_py (lift (first answer)) (\<lambda>features.
         if truthy features then
           then_py (print_success ''Audio features access successful!'')
          (bind_py (lift (and_then (subscript features ''danceability'') numeric)) (\<lambda>danceability.
           then_py (print_line ''   Danceability: {:.2f}'' [danceability])
          (bind_py (lift (and_then (subscript features ''energy'') numeric)) (\<lambda>energy.
           then_py (print_line ''   Energy: {:.2f}'' [energy])
          (bind_py (lift (and_then (subscript features ''valence'') numeric)) (\<lambda>valence.
           then_py (print_line ''   Valence: {:.2f}'' [valence])
          (bind_py (lift (subscript features ''tempo'')) (\<lambda>tempo.
           then_py (print_line ''   Tempo: {} BPM'' [tempo])
          (bind_py (lift (subscript features ''key'')) (\<lambda>key.
           then_py (print_line ''   Key: {}'' [key])
          (bind_py (lift (subscript features ''mode'')) (\<lambda>mode.
           then_py (print_line ''   Mode: {}''
                      [PStr (if equals_one mode then ''Major'' else ''Minor'')])
          (ret (Some True))))))))))))))
         else ret None)))
       else ret None)))"

definition test_audio_features :: "(tester, bool option) py" where
  "test_audio_features =
     then_py (print_header ''Testing Audio Features'')
    (try_except audio_features_body
      (\<lambda>e. then_py (print_error ''Audio features test failed: '' (Some e)) (ret (Some False))))"

section \<open>The runner and the summary\<close>

text \<open>\<open>SpotifyAPITester()\<close>: the constructor, in a given process.\<close>

definition check_names :: "string list" where
  "check_names =
     [''environment'', ''authentication'', ''api_connection'', ''playlist_access'',
      ''search_functionality'']"

definition SpotifyAPITester :: "process \<Rightarrow> tester" where
  "SpotifyAPITester p =
     \<lparr>environ = environ p, trace = trace p,
      results = map (\<lambda>k. (k, False)) check_names,
      sp = None\<rparr>"

definition get_results :: "(tester, (string \<times> bool) list) py" where
  "get_results = (\<lambda>s. (Inr (results s), s))"

text \<open>\<open>sum(self.results.values())\<close>: a true value counts 1.\<close>

definition sum_values :: "(string \<times> bool) list \<Rightarrow> int" where
  "sum_values rs = sum_list (map (\<lambda>(k, v). if v then 1 else 0) rs)"

definition print_summary :: "(tester, unit) py" where
  "print_summary =
     then_py (print_header ''Test Summary'')
    (bind_py get_results (\<lambda>rs.
     then_py (for_each (\<lambda>(test_name, result). emit (Row test_name result)) rs)
    (then_py (emit (Overall (sum_values rs) (int (length rs))))
    (if sum_values rs = int (length rs) then
       then_py (print_success ''All tests passed! Your Spotify API setup is working correctly.'')
      (print_line ''You're ready to use the Spotify Agent!'' [])
     else
       then_py (print_error ''Some tests failed. Please check your setup.'' None)
      (then_py (print_line ''Troubleshooting tips:'' [])
      (then_py (print_line ''   * Verify your Client ID and Secret in .env file'' [])
      (then_py (print_line ''   * Check your internet connection'' [])
      (then_py (print_line ''   * Ensure your Spotify app is active in Developer Dashboard'' [])
      (print_line ''   * Verify no typos in environment variable names'' [])))))))))"

text \<open>
  The list \<open>tests\<close> of \<open>run_all_tests\<close>, each method with its \<open>__name__\<close>, and the body of the
  loop: the value a test returns is dropped, an exception it raises is reported.
\<close>

definition tests :: "'a library \<Rightarrow> (string \<times> (tester, bool option) py) list" where
  "tests lib =
     [(''test_environment_variables'', test_environment_variables lib),
      (''test_authentication'', test_authentication lib),
      (''test_api_connection'', test_api_connection),
      (''test_playlist_access'', test_playlist_access),
      (''test_search_functionality'', test_search_functionality),
      (''test_audio_features'', test_audio_features)]"

definition run_test :: "string \<times> (tester, bool option) py \<Rightarrow> (tester, unit) py" where
  "run_test = (\<lambda>(name, test).
     try_except (then_py test (ret ()))
       (\<lambda>e. print_error (''Test '' @ name @ '' crashed: '') (Some e)))"

definition run_tests :: "(string \<times> (tester, bool option) py) list \<Rightarrow> (tester, unit) py" where
  "run_tests ts =
     then_py (print_header ''Starting Spotify API Test Suite'')
    (then_py (for_each run_test ts)
     print_summary)"

definition run_all_tests :: "'a library \<Rightarrow> (tester, unit) py" where
  "run_all_tests lib = run_tests (tests lib)"

section \<open>The quick test\<close>

definition quick_test :: "'a library \<Rightarrow> (process, bool option) py" where
  "quick_test lib =
     then_py (emit (Line ''Quick Spotify API Test'' []))
    (then_py (emit (Line (replicate 30 (CHR ''='')) []))
    (try_except
      (then_py (call_load_dotenv lib)
      (bind_py (getenv_or ''CLIENT_ID'' ''SPOTIFY_CLIENT_ID'') (\<lambda>client_id.
       bind_py (getenv_or ''CLIENT_SECRET'' ''SPOTIFY_CLIENT_SECRET'') (\<lambda>client_secret.
       if \<not> present client_id \<or> \<not> present client_secret then
         then_py (emit (Failure ''Missing credentials in .env file'' None))
        (ret (Some False))
       else
         bind_py (new_credentials lib client_id client_secret) (\<lambda>auth_manager.
         bind_py (new_client lib auth_manager 10 None) (\<lambda>c.
         bind_py (call_search c ''artist:Spotify'' ''playlist'' 1) (\<lambda>results.
         if truthy results then
           then_py (emit (Success ''Spotify API is working!'')) (ret (Some True))
         else
           then_py (emit (Failure ''API returned no results'' None)) (ret (Some False)))))))))
      (\<lambda>e. then_py (emit (Failure ''API test failed: '' (Some e))) (ret (Some False)))))"

section \<open>Reading a trace\<close>

fun headers :: "event list \<Rightarrow> string list" where
  "headers [] = []"
| "headers (Header h # evs) = h # headers evs"
| "headers (_ # evs) = headers evs"

fun calls :: "event list \<Rightarrow> request list" where
  "calls [] = []"
| "calls (Call r # evs) = r # calls evs"
| "calls (_ # evs) = calls evs"

fun overalls :: "event list \<Rightarrow> (int \<times> int) list" where
  "overalls [] = []"
| "overalls (Overall p t # evs) = (p, t) # overalls evs"
| "overalls (_ # evs) = overalls evs"

section \<open>What a statement leaves alone\<close>

text \<open>
  A statement is quiet when, from every state and whether it returns or raises, it leaves
  the results, the client handle and the environment as they were and prints no header and no
  summary count.
\<close>

definition quiet :: "(tester, 'a) py \<Rightarrow> bool" where
  "quiet m \<longleftrightarrow>
     (\<forall>s. results (snd (m s)) = results s \<and> sp (snd (m s)) = sp s \<and>
          environ (snd (m s)) = environ s \<and>
          headers (trace (snd (m s))) = headers (trace s) \<and>
          overalls (trace (snd (m s))) = overalls (trace s))"

text \<open>
  A statement marks the entry \<open>k\<close> when it is quiet but for the results, and these it changes
  in one way only: by \<open>self.results[k] = True\<close>, exactly when it returns \<open>True\<close>.
\<close>

definition marks :: "string \<Rightarrow> (tester, bool option) py \<Rightarrow> bool" where
  "marks k m \<longleftrightarrow>
     (\<forall>s. sp (snd (m s)) = sp s \<and> environ (snd (m s)) = environ s \<and>
          headers (trace (snd (m s))) = headers (trace s) \<and>
          overalls (trace (snd (m s))) = overalls (trace s) \<and>
          results (snd (m s)) =
            (if fst (m s) = Inr (Some True) then AList.update k True (results s)
             else results s))"

text \<open>
  What the runner relies on in a check with header \<open>h\<close> and entry \<open>k\<close>: it returns, prints its
  header once and no summary count, and leaves the results as they were or with \<open>k\<close> set true.
\<close>

definition check :: "string \<Rightarrow> string \<Rightarrow> (tester, bool option) py \<Rightarrow> bool" where
  "check h k t \<longleftrightarrow>
     (\<forall>s. (\<exists>r. fst (t s) = Inr r) \<and>
          headers (trace (snd (t s))) = headers (trace s) @ [h] \<and>
          overalls (trace (snd (t s))) = overalls (trace s) \<and>
          (results (snd (t s)) = results s \<or>
           results (snd (t s)) = AList.update k True (results s)))"

text \<open>
  One results dictionary has grown into another: the same keys in the same order, every true
  entry still true, and no fewer true entries.
\<close>

definition grown :: "(string \<times> bool) list \<Rightarrow> (string \<times> bool) list \<Rightarrow> bool" where
  "grown rs rs' \<longleftrightarrow>
     map fst rs' = map fst rs \<and>
     (\<forall>k. map_of rs k = Some True \<longrightarrow> map_of rs' k = Some True) \<and>
     sum_values rs \<le> sum_values rs'"

text \<open>The state in which the \<open>try\<close> block of a check starts: its header has been printed.\<close>

definition entered :: "string \<Rightarrow> tester \<Rightarrow> tester" where
  "entered h s = s\<lparr>trace := trace s @ [Header h]\<rparr>"

text \<open>
  The state one turn of the loop of \<open>run_all_tests\<close> leaves: that of the test, with the
  report of the crash when the test raised.
\<close>

definition after_test :: "tester \<Rightarrow> string \<times> (tester, bool option) py \<Rightarrow> tester" where
  "after_test s nt =
     (case snd nt s of
        (Inl e, s') \<Rightarrow> s'\<lparr>trace := trace s' @ [Failure (''Test '' @ fst nt @ '' crashed: '') (Some e)]\<rparr>
      | (Inr r, s') \<Rightarrow> s')"

text \<open>A response to a search for \<open>ty\<close> whose list of items is there and empty.\<close>

definition empty_items :: "string \<Rightarrow> pyval \<Rightarrow> bool" where
  "empty_items ty r =
     (true_and_has r (ty @ ''s'') = Inr True \<and>
      (case path r [Key (ty @ ''s''), Key ''items''] of
         Inl e \<Rightarrow> False
       | Inr items \<Rightarrow> \<not> truthy items))"

text \<open>The number of entries that are true.\<close>

definition passed_count :: "tester \<Rightarrow> int" where
  "passed_count s = int (length (filter snd (results s)))"

section \<open>Sample libraries and responses\<close>

text \<open>An item that carries every field the checks print, and responses built from it.\<close>

definition sample_item :: pyval where
  "sample_item =
     PDict [(''name'', PStr ''Blinding Lights''),
            (''id'', PStr ''0VjIjW4GlUZAMYd2vXMi3b''),
            (''duration_ms'', PInt 200040),
            (''artists'', PList [PDict [(''name'', PStr ''The Weeknd'')]]),
            (''followers'', PDict [(''total'', PInt 1000)]),
            (''owner'', PDict [(''display_name'', PStr ''Spotify'')])]"

definition sample_playlist :: pyval where
  "sample_playlist =
     PDict [(''name'', PStr ''Top 50 - Global''),
            (''description'', PStr ''Daily update''),
            (''followers'', PDict [(''total'', PInt 16000000)]),
            (''tracks'', PDict [(''total'', PInt 50)]),
            (''public'', PBool True)]"

definition sample_features :: pyval where
  "sample_features =
     PDict [(''danceability'', PFloat (1 / 2)), (''energy'', PFloat (3 / 4)),
            (''valence'', PFloat (1 / 4)), (''tempo'', PFloat 171), (''key'', PInt 1),
            (''mode'', PInt 1)]"

definition sample_client :: client where
  "sample_client =
     \<lparr>search = (\<lambda>q ty limit. Inr (PDict [(ty @ ''s'', PDict [(''items'', PList [sample_item])])])),
      playlist = (\<lambda>pid. Inr sample_playlist),
      playlist_tracks = (\<lambda>pid limit. Inr (PDict [(''items'', PList [PDict [(''track'', sample_item)]])])),
      audio_features = (\<lambda>ids. Inr (PList [sample_features]))\<rparr>"

text \<open>A client that gives the same answer to every request.\<close>

definition answering :: "exn + pyval \<Rightarrow> client" where
  "answering a =
     \<lparr>search = (\<lambda>q ty limit. a), playlist = (\<lambda>pid. a),
      playlist_tracks = (\<lambda>pid limit. a), audio_features = (\<lambda>ids. a)\<rparr>"

text \<open>A library whose constructors succeed and hand out the given client.\<close>

definition library_with :: "client \<Rightarrow> unit library" where
  "library_with c =
     \<lparr>load_dotenv = (\<lambda>env. env),
      SpotifyClientCredentials = (\<lambda>client_id client_secret. Inr ()),
      Spotify = (\<lambda>auth_manager requests_timeout retries. Inr c)\<rparr>"

text \<open>A library that rejects the credentials.\<close>

definition rejecting_library :: "unit library" where
  "rejecting_library =
     \<lparr>load_dotenv = (\<lambda>env. env),
      SpotifyClientCredentials = (\<lambda>client_id client_secret. Inl (LibraryError ''No client_id'')),
      Spotify = (\<lambda>auth_manager requests_timeout retries. Inr sample_client)\<rparr>"

text \<open>A process with both credentials set, one with none, and fresh testers in them.\<close>

definition configured :: process where
  "configured =
     \<lparr>environ = [''CLIENT_ID'' \<mapsto> ''abc'', ''CLIENT_SECRET'' \<mapsto> ''xyz''], trace = []\<rparr>"

definition unconfigured :: process where
  "unconfigured = \<lparr>environ = Map.empty, trace = []\<rparr>"

definition fresh :: tester where
  "fresh = SpotifyAPITester unconfigured"

definition tester_with :: "client \<Rightarrow> tester" where
  "tester_with c = (SpotifyAPITester configured)\<lparr>sp := Some c\<rparr>"

text \<open>A test that raises, as no method of the class does, to exercise the runner's handler.\<close>

definition crashing_test :: "(tester, bool option) py" where
  "crashing_test = lift (Inl (LibraryError ''boom''))"

text \<open>A library whose second constructor fails.\<close>

definition unbuilt_library :: "unit library" where
  "unbuilt_library =
     \<lparr>load_dotenv = (\<lambda>env. env),
      SpotifyClientCredentials = (\<lambda>client_id client_secret. Inr ()),
      Spotify = (\<lambda>auth_manager requests_timeout retries. Inl (LibraryError ''no session''))\<rparr>"

text \<open>The response to a search that found nothing, and a client that finds nothing.\<close>

definition no_items_of :: "string \<Rightarrow> pyval" where
  "no_items_of ty = PDict [(ty @ ''s'', PDict [(''items'', PList [])])]"

definition silent_client :: client where
  "silent_client = sample_client\<lparr>search := (\<lambda>q ty limit. Inr (no_items_of ty))\<rparr>"

text \<open>A track list whose one track names no artist.\<close>

definition artistless :: pyval where
  "artistless =
     PDict [(''tracks'', PDict [(''items'', PList [
       PDict [(''name'', PStr ''Shape of You''), (''artists'', PList []),
              (''duration_ms'', PInt 233712)]])])]"

text \<open>A service that has no audio features for the track, and one that drops the second
  request for the playlist.\<close>

definition featureless_client :: client where
  "featureless_client = sample_client\<lparr>audio_features := (\<lambda>ids. Inr (PList [PNone]))\<rparr>"

definition dropping_client :: client where
  "dropping_client =
     sample_client\<lparr>playlist_tracks := (\<lambda>pid limit. Inl (LibraryError ''connection dropped''))\<rparr>"

text \<open>A service whose every search finds one item that is \<open>null\<close>, and one that is out of
  reach.\<close>

definition null_item_client :: client where
  "null_item_client =
     sample_client\<lparr>search := (\<lambda>q ty limit.
        Inr (PDict [(ty @ ''s'', PDict [(''items'', PList [PNone])])]))\<rparr>"

definition unreachable_client :: client where
  "unreachable_client = answering (Inl (LibraryError ''timed out''))"

section \<open>Predicates the properties are stated with\<close>

text \<open>
  A transition of the results that either changes nothing or is \<open>self.results[k] = True\<close>, and
  in which the dictionary has grown.
\<close>

definition sets_only :: "string \<Rightarrow> tester \<Rightarrow> tester \<Rightarrow> bool" where
  "sets_only k s s' \<longleftrightarrow>
     (results s' = results s \<or> results s' = AList.update k True (results s)) \<and>
     grown (results s) (results s')"

text \<open>A response that contains a track list with at least one item.\<close>

definition has_track_item :: "pyval \<Rightarrow> bool" where
  "has_track_item r =
     (true_and_has r ''tracks'' = Inr True \<and>
      \<not> isl (path r [Key ''tracks'', Key ''items'', Zero]))"

text \<open>A track of which \<open>test_api_connection\<close> can print the name, the first artist and the
  duration.\<close>

definition printable_track :: "pyval \<Rightarrow> bool" where
  "printable_track track =
     (\<not> isl (subscript track ''name'') \<and>
      \<not> isl (path track [Key ''artists'', Zero, Key ''name'']) \<and>
      \<not> isl (subscript track ''duration_ms''))"

text \<open>
  An item of which \<open>test_search_functionality\<close> can print the line of its type: the fields
  read by the branch for \<open>ty\<close>, none for a type outside the four.
\<close>

definition item_printable :: "string \<Rightarrow> pyval \<Rightarrow> bool" where
  "item_printable ty item =
     (if ty = ''artist'' then
        \<not> isl (subscript item ''name'') \<and>
        \<not> isl (and_then (path item [Key ''followers'', Key ''total'']) numeric)
      else if ty = ''track'' then
        \<not> isl (subscript item ''name'') \<and>
        \<not> isl (path item [Key ''artists'', Zero, Key ''name''])
      else if ty = ''playlist'' then
        \<not> isl (subscript item ''name'') \<and>
        \<not> isl (path item [Key ''owner'', Key ''display_name''])
      else if ty = ''album'' then
        \<not> isl (subscript item ''name'') \<and>
        \<not> isl (path item [Key ''artists'', Zero, Key ''name''])
      else True)"

text \<open>
  A response through which one turn of the search loop passes without raising: false, or
  without the key \<open>ty + 's'\<close>, or with a false list of items under it, or with a first item
  that can be printed.
\<close>

definition query_passes :: "string \<Rightarrow> pyval \<Rightarrow> bool" where
  "query_passes ty r =
     (case true_and_has r (ty @ ''s'') of
        Inl e \<Rightarrow> False
      | Inr found \<Rightarrow>
          (if found then
             (case path r [Key (ty @ ''s''), Key ''items''] of
                Inl e \<Rightarrow> False
              | Inr items \<Rightarrow>
                  (if truthy items then
                     (case first items of
                        Inl e \<Rightarrow> False
                      | Inr item \<Rightarrow> item_printable ty item)
                   else True))
           else True))"

section \<open>How statements compose\<close>

lemmas py_defs = ret_def lift_def bind_py_def then_py_def try_except_def emit_def
  print_header_def print_success_def print_error_def print_info_def print_line_def
  call_load_dotenv_def getenv_or_def set_result_def set_sp_def new_credentials_def new_client_def
  call_search_def call_playlist_def call_playlist_tracks_def call_audio_features_def self_sp_def

lemma py_simps:
  "ret x s = (Inr x, s)"
  "lift r s = (r, s)"
  "bind_py m f s = (case m s of (Inl e, s') \<Rightarrow> (Inl e, s') | (Inr x, s') \<Rightarrow> f x s')"
  "then_py m n s = (case m s of (Inl e, s') \<Rightarrow> (Inl e, s') | (Inr x, s') \<Rightarrow> n s')"
  "try_except m h s = (case m s of (Inl e, s') \<Rightarrow> h e s' | (Inr x, s') \<Rightarrow> (Inr x, s'))"
  by (simp_all add: ret_def lift_def bind_py_def then_py_def try_except_def)

lemma print_simps:
  "emit ev p = (Inr (), p\<lparr>trace := trace p @ [ev]\<rparr>)"
  "print_header a p = (Inr (), p\<lparr>trace := trace p @ [Header a]\<rparr>)"
  "print_success a p = (Inr (), p\<lparr>trace := trace p @ [Success a]\<rparr>)"
  "print_error a e p = (Inr (), p\<lparr>trace := trace p @ [Failure a e]\<rparr>)"
  "print_info a p = (Inr (), p\<lparr>trace := trace p @ [Info a]\<rparr>)"
  "print_line a vs p = (Inr (), p\<lparr>trace := trace p @ [Line a vs]\<rparr>)"
  by (simp_all add: emit_def print_header_def print_success_def print_error_def print_info_def
      print_line_def)

lemma headers_append: "headers (a @ b) = headers a @ headers b"
  by (induction a rule: headers.induct) auto

lemma calls_append: "calls (a @ b) = calls a @ calls b"
  by (induction a rule: calls.induct) auto

lemma overalls_append: "overalls (a @ b) = overalls a @ overalls b"
  by (induction a rule: overalls.induct) auto

lemma quiet_ret: "quiet (ret x)"
  by (simp add: quiet_def ret_def)

lemma quiet_lift: "quiet (lift r)"
  by (simp add: quiet_def lift_def)

lemma quiet_bind:
  assumes "quiet m" and "\<And>x. quiet (f x)"
  shows "quiet (bind_py m f)"
  unfolding quiet_def
proof
  fix s
  obtain r s' where ms: "m s = (r, s')" by (cases "m s")
  from assms(1) have q: "results s' = results s" "sp s' = sp s" "environ s' = environ s"
    "headers (trace s') = headers (trace s)" "overalls (trace s') = overalls (trace s)"
    using ms by (auto simp: quiet_def dest: spec [of _ s])
  show "results (snd (bind_py m f s)) = results s \<and> sp (snd (bind_py m f s)) = sp s \<and>
     environ (snd (bind_py m f s)) = environ s \<and>
     headers (trace (snd (bind_py m f s))) = headers (trace s) \<and>
     overalls (trace (snd (bind_py m f s))) = overalls (trace s)"
  proof (cases r)
    case (Inl e)
    then show ?thesis using ms q by (simp add: bind_py_def)
  next
    case (Inr x)
    then have "bind_py m f s = f x s'" using ms by (simp add: bind_py_def)
    then show ?thesis using assms(2) [of x] q by (simp add: quiet_def)
  qed
qed

lemma quiet_then: "quiet m \<Longrightarrow> quiet n \<Longrightarrow> quiet (then_py m n)"
  by (simp add: then_py_def quiet_bind)

lemma quiet_try:
  assumes "quiet m" and "\<And>e. quiet (h e)"
  shows "quiet (try_except m h)"
  unfolding quiet_def
proof
  fix s
  obtain r s' where ms: "m s = (r, s')" by (cases "m s")
  from assms(1) have q: "results s' = results s" "sp s' = sp s" "environ s' = environ s"
    "headers (trace s') = headers (trace s)" "overalls (trace s') = overalls (trace s)"
    using ms by (auto simp: quiet_def dest: spec [of _ s])
  show "results (snd (try_except m h s)) = results s \<and> sp (snd (try_except m h s)) = sp s \<and>
     environ (snd (try_except m h s)) = environ s \<and>
     headers (trace (snd (try_except m h s))) = headers (trace s) \<and>
     overalls (trace (snd (try_except m h s))) = overalls (trace s)"
  proof (cases r)
    case (Inl e)
    then have "try_except m h s = h e s'" using ms by (simp add: try_except_def)
    then show ?thesis using assms(2) [of e] q by (simp add: quiet_def)
  next
    case (Inr x)
    then show ?thesis using ms q by (simp add: try_except_def)
  qed
qed

lemma quiet_if: "quiet a \<Longrightarrow> quiet b \<Longrightarrow> quiet (if c then a else b)"
  by simp

lemma quiet_for_each: "(\<And>x. quiet (f x)) \<Longrightarrow> quiet (for_each f xs)"
  by (induction xs) (simp_all add: quiet_ret quiet_then)

lemma quiet_emit: "headers [ev] = [] \<Longrightarrow> overalls [ev] = [] \<Longrightarrow> quiet (emit ev)"
  by (simp add: quiet_def emit_def headers_append overalls_append)

lemma quiet_self_sp: "(\<And>c. quiet (m c)) \<Longrightarrow> quiet (self_sp m)"
  by (auto simp: quiet_def self_sp_def split: option.splits)

lemma quiet_prints:
  "quiet (print_success a)" "quiet (print_error a e)" "quiet (print_info a)"
  "quiet (print_line a vs)"
  by (simp_all add: print_success_def print_error_def print_info_def print_line_def quiet_emit)

lemma quiet_calls:
  "quiet (call_search c q ty n)" "quiet (call_playlist c p)"
  "quiet (call_playlist_tracks c p n)" "quiet (call_audio_features c ids)"
  by (simp_all add: call_search_def call_playlist_def call_playlist_tracks_def
      call_audio_features_def quiet_then quiet_emit quiet_lift)

lemmas quiet_intros = quiet_ret quiet_lift quiet_prints quiet_calls quiet_self_sp quiet_for_each
  quiet_if quiet_try quiet_then quiet_bind

lemma quiet_sample_track: "quiet (sample_track x)"
  unfolding sample_track_def by (cases x) (simp add: quiet_intros)

lemma quiet_print_item: "quiet (print_item ty item)"
  unfolding print_item_def by (intro quiet_intros)

lemma quiet_search_one: "quiet (search_one x)"
  unfolding search_one_def by (cases x) (simp add: quiet_intros quiet_print_item)

lemma marks_bind:
  assumes "quiet m" and "\<And>x. marks k (f x)"
  shows "marks k (bind_py m f)"
  unfolding marks_def
proof
  fix s
  obtain r s' where ms: "m s = (r, s')" by (cases "m s")
  from assms(1) have q: "results s' = results s" "sp s' = sp s" "environ s' = environ s"
    "headers (trace s') = headers (trace s)" "overalls (trace s') = overalls (trace s)"
    using ms by (auto simp: quiet_def dest: spec [of _ s])
  show "sp (snd (bind_py m f s)) = sp s \<and> environ (snd (bind_py m f s)) = environ s \<and>
     headers (trace (snd (bind_py m f s))) = headers (trace s) \<and>
     overalls (trace (snd (bind_py m f s))) = overalls (trace s) \<and>
     results (snd (bind_py m f s)) =
       (if fst (bind_py m f s) = Inr (Some True) then AList.update k True (results s)
        else results s)"
  proof (cases r)
    case (Inl e)
    then show ?thesis using ms q by (simp add: bind_py_def)
  next
    case (Inr x)
    then have "bind_py m f s = f x s'" using ms by (simp add: bind_py_def)
    then show ?thesis using assms(2) [of x] q by (simp add: marks_def)
  qed
qed

lemma marks_then: "quiet m \<Longrightarrow> marks k n \<Longrightarrow> marks k (then_py m n)"
  by (simp add: then_py_def marks_bind)

lemma marks_set: "marks k (then_py (set_result k True) (ret (Some True)))"
  by (simp add: marks_def py_defs)

lemma marks_ret: "r \<noteq> Some True \<Longrightarrow> marks k (ret r)"
  by (simp add: marks_def py_defs)

lemma marks_if: "marks k a \<Longrightarrow> marks k b \<Longrightarrow> marks k (if c then a else b)"
  by simp

lemma marks_try:
  assumes "marks k m" and "\<And>e. marks k (h e)"
  shows "marks k (try_except m h)"
  unfolding marks_def
proof
  fix s
  obtain r s' where ms: "m s = (r, s')" by (cases "m s")
  from assms(1) have q: "sp s' = sp s" "environ s' = environ s"
    "headers (trace s') = headers (trace s)" "overalls (trace s') = overalls (trace s)"
    "results s' = (if r = Inr (Some True) then AList.update k True (results s) else results s)"
    using ms by (auto simp: marks_def dest: spec [of _ s])
  show "sp (snd (try_except m h s)) = sp s \<and> environ (snd (try_except m h s)) = environ s \<and>
     headers (trace (snd (try_except m h s))) = headers (trace s) \<and>
     overalls (trace (snd (try_except m h s))) = overalls (trace s) \<and>
     results (snd (try_except m h s)) =
       (if fst (try_except m h s) = Inr (Some True) then AList.update k True (results s)
        else results s)"
  proof (cases r)
    case (Inl e)
    then have "try_except m h s = h e s'" using ms by (simp add: try_except_def)
    then show ?thesis using assms(2) [of e] q Inl by (simp add: marks_def)
  next
    case (Inr x)
    then show ?thesis using ms q by (simp add: try_except_def)
  qed
qed

lemmas marks_intros = marks_set marks_ret marks_if marks_try marks_then marks_bind

text \<open>A handler that reports and returns \<open>False\<close> makes the whole \<open>try\<close> statement return.\<close>

lemma try_returns:
  "\<exists>r. fst (try_except m (\<lambda>e. then_py (print_error msg (Some e)) (ret (Some False))) s) = Inr r"
  by (cases "m s") (auto simp: py_defs split: sum.splits)

lemma try_raised:
  "fst (m s) = Inl e \<Longrightarrow>
   fst (try_except m (\<lambda>e. then_py (print_error msg (Some e)) (ret (Some False))) s) =
     Inr (Some False)"
  by (cases "m s") (auto simp: py_defs split: sum.splits)

lemma try_returned:
  "fst (m s) = Inr r \<Longrightarrow> fst (try_except m h s) = Inr r"
  by (cases "m s") (auto simp: py_defs split: sum.splits)

lemma after_header:
  "then_py (print_header h) m s = m (entered h s)"
  by (simp add: py_defs entered_def)

lemma entered_simps:
  "results (entered h s) = results s" "sp (entered h s) = sp s"
  "environ (entered h s) = environ s" "headers (trace (entered h s)) = headers (trace s) @ [h]"
  "overalls (trace (entered h s)) = overalls (trace s)"
  "calls (trace (entered h s)) = calls (trace s)"
  by (simp_all add: entered_def headers_append overalls_append calls_append)

section \<open>The effect of each check\<close>

lemma handler_marks: "marks k (then_py (print_error msg e) (ret (Some False)))"
  by (intro marks_intros quiet_intros) simp

lemma handler_quiet: "quiet (then_py (print_error msg e) (ret (Some False)))"
  by (intro quiet_intros)

text \<open>A check made of a header and a \<open>try\<close> block that marks \<open>k\<close>.\<close>

lemma marking_check:
  assumes t: "t = then_py (print_header h)
                (try_except b (\<lambda>e. then_py (print_error msg (Some e)) (ret (Some False))))"
    and b: "marks k b"
  shows "\<exists>r. fst (t s) = Inr r"
    and "sp (snd (t s)) = sp s"
    and "environ (snd (t s)) = environ s"
    and "headers (trace (snd (t s))) = headers (trace s) @ [h]"
    and "overalls (trace (snd (t s))) = overalls (trace s)"
    and "results (snd (t s)) =
           (if fst (t s) = Inr (Some True) then AList.update k True (results s) else results s)"
proof -
  let ?guarded = "try_except b (\<lambda>e. then_py (print_error msg (Some e)) (ret (Some False)))"
  have eq: "t s = ?guarded (entered h s)"
    by (simp add: t after_header)
  have m: "marks k ?guarded"
    by (intro marks_try b handler_marks)
  show "\<exists>r. fst (t s) = Inr r"
    unfolding eq by (rule try_returns)
  from m show "sp (snd (t s)) = sp s" "environ (snd (t s)) = environ s"
    "headers (trace (snd (t s))) = headers (trace s) @ [h]"
    "overalls (trace (snd (t s))) = overalls (trace s)"
    "results (snd (t s)) =
           (if fst (t s) = Inr (Some True) then AList.update k True (results s) else results s)"
    unfolding eq marks_def by (simp_all add: entered_simps)
qed

text \<open>The same for a \<open>try\<close> block that is quiet.\<close>

lemma quiet_check:
  assumes t: "t = then_py (print_header h)
                (try_except b (\<lambda>e. then_py (print_error msg (Some e)) (ret (Some False))))"
    and b: "quiet b"
  shows "\<exists>r. fst (t s) = Inr r"
    and "sp (snd (t s)) = sp s"
    and "environ (snd (t s)) = environ s"
    and "headers (trace (snd (t s))) = headers (trace s) @ [h]"
    and "overalls (trace (snd (t s))) = overalls (trace s)"
    and "results (snd (t s)) = results s"
proof -
  let ?guarded = "try_except b (\<lambda>e. then_py (print_error msg (Some e)) (ret (Some False)))"
  have eq: "t s = ?guarded (entered h s)"
    by (simp add: t after_header)
  have m: "quiet ?guarded"
    by (intro quiet_try b handler_quiet)
  show "\<exists>r. fst (t s) = Inr r"
    unfolding eq by (rule try_returns)
  from m show "sp (snd (t s)) = sp s" "environ (snd (t s)) = environ s"
    "headers (trace (snd (t s))) = headers (trace s) @ [h]"
    "overalls (trace (snd (t s))) = overalls (trace s)"
    "results (snd (t s)) = results s"
    unfolding eq quiet_def by (simp_all add: entered_simps)
qed

lemma api_connection_body_marks: "marks ''api_connection'' api_connection_body"
  unfolding api_connection_body_def
  by (intro marks_intros quiet_intros) simp_all

lemmas api_connection_effect =
  marking_check [OF test_api_connection_def api_connection_body_marks]

lemma playlist_access_body_marks: "marks ''playlist_access'' playlist_access_body"
  unfolding playlist_access_body_def
  by (intro marks_intros quiet_intros quiet_sample_track) simp_all

lemmas playlist_access_effect =
  marking_check [OF test_playlist_access_def playlist_access_body_marks]

lemma search_functionality_body_marks:
  "marks ''search_functionality'' search_functionality_body"
  unfolding search_functionality_body_def
  by (intro marks_intros quiet_intros quiet_search_one)

lemmas search_functionality_effect =
  marking_check [OF test_search_functionality_def search_functionality_body_marks]

lemma audio_features_body_quiet: "quiet audio_features_body"
  unfolding audio_features_body_def
  by (intro quiet_intros)

lemmas audio_features_effect =
  quiet_check [OF test_audio_features_def audio_features_body_quiet]

text \<open>The first two checks, in closed form.\<close>

lemma present_credential:
  "present (credential env a b) \<longleftrightarrow> present (env a) \<or> present (env b)"
  by (simp add: credential_def)

lemma test_environment_variables_eq:
  "test_environment_variables lib s =
     (let env = load_dotenv lib (environ s);
          client_id = credential env ''CLIENT_ID'' ''SPOTIFY_CLIENT_ID'';
          client_secret = credential env ''CLIENT_SECRET'' ''SPOTIFY_CLIENT_SECRET'';
          shown = [Header ''Testing Environment Variables'',
                   Line ''CLIENT_ID: {}'' [PStr (if present client_id then ''Found'' else ''Missing'')],
                   Line ''CLIENT_SECRET: {}''
                     [PStr (if present client_secret then ''Found'' else ''Missing'')]]
      in if present client_id \<and> present client_secret then
           (Inr (Some True),
            s\<lparr>environ := env,
              trace := trace s @ shown @ [Success ''All environment variables are set!''],
              results := AList.update ''environment'' True (results s)\<rparr>)
         else
           (Inr (Some False),
            s\<lparr>environ := env,
              trace := trace s @ shown @
                [Failure ''Missing environment variables!'' None,
                 Info ''Please check your .env file'']\<rparr>))"
  by (simp add: test_environment_variables_def py_defs Let_def)

lemma authentication_body_cases:
  "authentication_body lib s =
     (let client_id = credential (environ s) ''CLIENT_ID'' ''SPOTIFY_CLIENT_ID'';
          client_secret = credential (environ s) ''CLIENT_SECRET'' ''SPOTIFY_CLIENT_SECRET'';
          s1 = s\<lparr>trace := trace s @ [Call (NewCredentials client_id client_secret)]\<rparr>
      in case SpotifyClientCredentials lib client_id client_secret of
           Inl e \<Rightarrow> (Inl e, s1)
         | Inr auth_manager \<Rightarrow>
             (let s2 = s1\<lparr>trace := trace s1 @ [Call (NewClient 10 (Some 1))]\<rparr>
              in case Spotify lib auth_manager 10 (Some 1) of
                   Inl e \<Rightarrow> (Inl e, s2)
                 | Inr c \<Rightarrow>
                     (Inr (Some True),
                      s2\<lparr>trace := trace s2 @ [Success ''Authentication successful!''],
                         sp := Some c,
                         results := AList.update ''authentication'' True (results s)\<rparr>)))"
  by (simp add: authentication_body_def py_defs Let_def split: sum.splits)

lemma test_authentication_effect:
  shows "\<exists>r. fst (test_authentication lib s) = Inr r"
    and "environ (snd (test_authentication lib s)) = environ s"
    and "headers (trace (snd (test_authentication lib s))) =
           headers (trace s) @ [''Testing Authentication'']"
    and "overalls (trace (snd (test_authentication lib s))) = overalls (trace s)"
    and "results (snd (test_authentication lib s)) =
           (if fst (test_authentication lib s) = Inr (Some True)
            then AList.update ''authentication'' True (results s) else results s)"
  by (simp_all add: test_authentication_def after_header authentication_body_cases
      entered_def Let_def py_defs headers_append overalls_append split: sum.splits)

text \<open>The summary, in closed form.\<close>

lemma rows_eq:
  "for_each (\<lambda>(test_name, result). emit (Row test_name result)) rs s =
     (Inr (), s\<lparr>trace := trace s @ map (\<lambda>(test_name, result). Row test_name result) rs\<rparr>)"
  by (induction rs arbitrary: s) (auto simp: py_defs)

lemma headers_rows: "headers (map (\<lambda>(test_name, result). Row test_name result) rs) = []"
  by (induction rs) auto

lemma overalls_rows: "overalls (map (\<lambda>(test_name, result). Row test_name result) rs) = []"
  by (induction rs) auto

lemma print_summary_effect:
  shows "fst (print_summary s) = Inr ()"
    and "results (snd (print_summary s)) = results s"
    and "sp (snd (print_summary s)) = sp s"
    and "environ (snd (print_summary s)) = environ s"
    and "headers (trace (snd (print_summary s))) = headers (trace s) @ [''Test Summary'']"
    and "overalls (trace (snd (print_summary s))) =
           overalls (trace s) @ [(sum_values (results s), int (length (results s)))]"
  by (simp_all add: print_summary_def get_results_def rows_eq py_simps print_simps
      headers_append overalls_append headers_rows overalls_rows)

text \<open>The loop of the runner is a fold of the tests over the state.\<close>

lemma run_test_eq: "run_test nt s = (Inr (), after_test s nt)"
  by (cases nt) (auto simp: run_test_def after_test_def py_defs split: prod.splits sum.splits)

lemma for_each_run_test: "for_each run_test ts s = (Inr (), foldl after_test s ts)"
  by (induction ts arbitrary: s) (simp_all add: ret_def then_py_def bind_py_def run_test_eq)

lemma run_tests_eq:
  "run_tests ts s =
     print_summary (foldl after_test (entered ''Starting Spotify API Test Suite'' s) ts)"
  by (simp add: run_tests_def py_simps print_simps entered_def for_each_run_test)

lemma after_test_returned: "fst (t s) = Inr r \<Longrightarrow> after_test s (n, t) = snd (t s)"
  by (cases "t s") (simp add: after_test_def)

section \<open>The six checks, as the runner sees them\<close>

lemma check_environment:
  "check ''Testing Environment Variables'' ''environment'' (test_environment_variables lib)"
  by (simp add: check_def test_environment_variables_eq Let_def headers_append overalls_append)

lemma check_authentication:
  "check ''Testing Authentication'' ''authentication'' (test_authentication lib)"
  unfolding check_def using test_authentication_effect [of lib] by simp

lemma check_api_connection:
  "check ''Testing API Connection'' ''api_connection'' test_api_connection"
  unfolding check_def using api_connection_effect by simp

lemma check_playlist_access:
  "check ''Testing Playlist Access'' ''playlist_access'' test_playlist_access"
  unfolding check_def using playlist_access_effect by simp

lemma check_search_functionality:
  "check ''Testing Search Functionality'' ''search_functionality'' test_search_functionality"
  unfolding check_def using search_functionality_effect by simp

lemma check_audio_features:
  "check ''Testing Audio Features'' k test_audio_features"
  unfolding check_def using audio_features_effect by simp

lemma after_check:
  assumes "check h k t"
  shows "after_test s (n, t) = snd (t s)"
    and "headers (trace (after_test s (n, t))) = headers (trace s) @ [h]"
    and "overalls (trace (after_test s (n, t))) = overalls (trace s)"
    and "results (after_test s (n, t)) = results s \<or>
         results (after_test s (n, t)) = AList.update k True (results s)"
proof -
  from assms obtain r where "fst (t s) = Inr r"
    unfolding check_def by blast
  then show eq: "after_test s (n, t) = snd (t s)"
    by (rule after_test_returned)
  from assms show "headers (trace (after_test s (n, t))) = headers (trace s) @ [h]"
    "overalls (trace (after_test s (n, t))) = overalls (trace s)"
    "results (after_test s (n, t)) = results s \<or>
         results (after_test s (n, t)) = AList.update k True (results s)"
    unfolding eq check_def by simp_all
qed

section \<open>Results that only grow\<close>

lemma sum_values_filter: "sum_values rs = int (length (filter snd rs))"
  by (induction rs) (auto simp: sum_values_def)

lemma sum_values_update: "sum_values rs \<le> sum_values (AList.update k True rs)"
  by (induction rs) (auto simp: sum_values_def)

lemma grown_refl: "grown rs rs"
  by (simp add: grown_def)

lemma grown_trans: "grown a b \<Longrightarrow> grown b c \<Longrightarrow> grown a c"
  by (auto simp: grown_def)

lemma grown_update: "k \<in> set (map fst rs) \<Longrightarrow> grown rs (AList.update k True rs)"
  by (auto simp: grown_def update_keys update_conv' sum_values_update)

lemma grown_keys: "grown rs rs' \<Longrightarrow> map fst rs' = map fst rs"
  by (simp add: grown_def)

lemma check_grown:
  assumes "check h k t" and "k \<in> set (map fst (results s))"
  shows "grown (results s) (results (snd (t s)))"
proof -
  from assms(1) have "results (snd (t s)) = results s \<or>
      results (snd (t s)) = AList.update k True (results s)"
    unfolding check_def by blast
  then show ?thesis
  proof
    assume "results (snd (t s)) = results s"
    then show ?thesis by (simp add: grown_refl)
  next
    assume "results (snd (t s)) = AList.update k True (results s)"
    then show ?thesis using grown_update [OF assms(2)] by simp
  qed
qed

lemma after_check_grown:
  "check h k t \<Longrightarrow> k \<in> set (map fst (results s)) \<Longrightarrow>
   grown (results s) (results (after_test s (n, t)))"
  by (simp add: after_check(1) check_grown)

lemma tests_grown:
  assumes "map fst (results s) = check_names"
  shows "grown (results s) (results (foldl after_test s (tests lib)))"
proof -
  define s1 where "s1 = after_test s (''test_environment_variables'', test_environment_variables lib)"
  define s2 where "s2 = after_test s1 (''test_authentication'', test_authentication lib)"
  define s3 where "s3 = after_test s2 (''test_api_connection'', test_api_connection)"
  define s4 where "s4 = after_test s3 (''test_playlist_access'', test_playlist_access)"
  define s5 where "s5 = after_test s4 (''test_search_functionality'', test_search_functionality)"
  define s6 where "s6 = after_test s5 (''test_audio_features'', test_audio_features)"
  have g1: "grown (results s) (results s1)"
    unfolding s1_def by (rule after_check_grown [OF check_environment]) (simp add: assms check_names_def)
  then have k1: "map fst (results s1) = check_names"
    using assms by (simp add: grown_keys)
  have g2: "grown (results s1) (results s2)"
    unfolding s2_def by (rule after_check_grown [OF check_authentication]) (simp add: k1 check_names_def)
  then have k2: "map fst (results s2) = check_names"
    using k1 by (simp add: grown_keys)
  have g3: "grown (results s2) (results s3)"
    unfolding s3_def by (rule after_check_grown [OF check_api_connection]) (simp add: k2 check_names_def)
  then have k3: "map fst (results s3) = check_names"
    using k2 by (simp add: grown_keys)
  have g4: "grown (results s3) (results s4)"
    unfolding s4_def by (rule after_check_grown [OF check_playlist_access]) (simp add: k3 check_names_def)
  then have k4: "map fst (results s4) = check_names"
    using k3 by (simp add: grown_keys)
  have g5: "grown (results s4) (results s5)"
    unfolding s5_def by (rule after_check_grown [OF check_search_functionality])
      (simp add: k4 check_names_def)
  then have k5: "map fst (results s5) = check_names"
    using k4 by (simp add: grown_keys)
  have g6: "grown (results s5) (results s6)"
    unfolding s6_def
    by (rule after_check_grown [OF check_audio_features [of "''environment''"]])
      (simp add: k5 check_names_def)
  have "foldl after_test s (tests lib) = s6"
    by (simp add: tests_def s1_def s2_def s3_def s4_def s5_def s6_def)
  then show ?thesis
    using g1 g2 g3 g4 g5 g6 by (metis grown_trans)
qed

lemma tests_headers:
  "headers (trace (foldl after_test s (tests lib))) =
     headers (trace s) @
       [''Testing Environment Variables'', ''Testing Authentication'',
        ''Testing API Connection'', ''Testing Playlist Access'',
        ''Testing Search Functionality'', ''Testing Audio Features'']"
  by (simp add: tests_def after_check(2) [OF check_environment]
      after_check(2) [OF check_authentication] after_check(2) [OF check_api_connection]
      after_check(2) [OF check_playlist_access] after_check(2) [OF check_search_functionality]
      after_check(2) [OF check_audio_features])

lemma tests_overalls:
  "overalls (trace (foldl after_test s (tests lib))) = overalls (trace s)"
  by (simp add: tests_def after_check(3) [OF check_environment]
      after_check(3) [OF check_authentication] after_check(3) [OF check_api_connection]
      after_check(3) [OF check_playlist_access] after_check(3) [OF check_search_functionality]
      after_check(3) [OF check_audio_features])

section \<open>The outcome of the guarded blocks\<close>

lemmas call_defs = call_search_def call_playlist_def call_playlist_tracks_def
  call_audio_features_def self_sp_def new_credentials_def new_client_def call_load_dotenv_def
  getenv_or_def set_result_def set_sp_def

lemmas sample_defs = tester_with_def answering_def SpotifyAPITester_def configured_def
  unconfigured_def fresh_def library_with_def rejecting_library_def check_names_def

lemma five_entries:
  assumes "map fst rs = check_names"
  shows "length rs = 5"
proof -
  have "length (map fst rs) = length check_names"
    using assms by simp
  then show ?thesis
    by (simp add: check_names_def)
qed

lemma check_sets_only:
  assumes "check h k t" and "k \<in> set (map fst (results s))"
  shows "sets_only k s (snd (t s))"
  unfolding sets_only_def using assms check_grown [OF assms] by (simp add: check_def)

lemma guarded_true:
  "fst (try_except m (\<lambda>e. then_py (print_error msg (Some e)) (ret (Some False))) s) =
     Inr (Some True) \<longleftrightarrow> fst (m s) = Inr (Some True)"
  by (cases "m s") (auto simp: py_simps print_simps split: sum.splits)

lemma guarded_raised:
  assumes "isl (fst (m s))"
  shows "fst (try_except m (\<lambda>e. then_py (print_error msg (Some e)) (ret (Some False))) s) =
           Inr (Some False)"
    and "\<exists>e. last (trace (snd (try_except m
            (\<lambda>e. then_py (print_error msg (Some e)) (ret (Some False))) s))) =
           Failure msg (Some e)"
  using assms by (cases "m s"; auto simp: py_simps print_simps split: sum.splits)+

lemma guarded_calls:
  "calls (trace (snd (try_except m (\<lambda>e. then_py (print_error msg (Some e)) (ret (Some False))) s))) =
     calls (trace (snd (m s)))"
  by (cases "m s") (auto simp: py_simps print_simps calls_append split: sum.splits)

lemma guarded_boolean:
  assumes "\<And>r. fst (m s) = Inr r \<Longrightarrow> r = Some True \<or> r = Some False"
  shows "fst (try_except m (\<lambda>e. then_py (print_error msg (Some e)) (ret (Some False))) s) =
           Inr (Some True) \<or>
         fst (try_except m (\<lambda>e. then_py (print_error msg (Some e)) (ret (Some False))) s) =
           Inr (Some False)"
proof (cases "fst (m s)")
  case (Inl e)
  then show ?thesis
    using try_raised [of m s e msg] by simp
next
  case (Inr x)
  then show ?thesis
    using try_returned [of m s x] assms [of x] by auto
qed

lemma api_connection_body_returns_true:
  "fst (api_connection_body s) = Inr (Some True) \<longleftrightarrow>
     (\<exists>c r track. sp s = Some c \<and> search c ''artist:Ed Sheeran'' ''track'' 1 = Inr r \<and>
        true_and_has r ''tracks'' = Inr True \<and>
        path r [Key ''tracks'', Key ''items'', Zero] = Inr track \<and> printable_track track)"
  by (auto simp: api_connection_body_def py_simps print_simps call_defs printable_track_def
      split: option.splits sum.splits)

lemma api_connection_body_boolean:
  "fst (api_connection_body s) = Inr r \<Longrightarrow> r = Some True \<or> r = Some False"
  by (auto simp: api_connection_body_def py_simps print_simps call_defs
      split: option.splits sum.splits if_splits)

lemma api_connection_body_calls:
  "calls (trace (snd (api_connection_body s))) =
     calls (trace s) @
       (case sp s of None \<Rightarrow> [] | Some c \<Rightarrow> [Search ''artist:Ed Sheeran'' ''track'' 1])"
  by (auto simp: api_connection_body_def py_simps print_simps call_defs calls_append
      split: option.splits sum.splits if_splits)

lemma playlist_access_body_returned:
  "fst (playlist_access_body s) = Inr r \<Longrightarrow>
     \<exists>c p. sp s = Some c \<and> playlist c playlist_id = Inr p \<and>
           r = (if truthy p then Some True else None)"
  by (auto simp: playlist_access_body_def py_simps print_simps call_defs
      split: option.splits sum.splits if_splits prod.splits)

lemma playlist_access_body_tracks_raise:
  "sp s = Some c \<Longrightarrow> playlist c playlist_id = Inr p \<Longrightarrow> truthy p \<Longrightarrow>
   playlist_tracks c playlist_id 3 = Inl e \<Longrightarrow> isl (fst (playlist_access_body s))"
  by (auto simp: playlist_access_body_def py_simps print_simps call_defs
      split: option.splits sum.splits if_splits prod.splits)

lemma search_one_skips:
  assumes "sp s = Some c" and "search c q ty 1 = Inr r" and "empty_items ty r"
  shows "search_one (q, ty) s = (Inr (), s\<lparr>trace := trace s @ [Call (Search q ty 1)]\<rparr>)"
  using assms
  by (auto simp: search_one_def empty_items_def py_simps print_simps call_defs
      split: sum.splits)

lemma search_loop_skips:
  assumes "sp s = Some c"
    and "\<forall>(q, ty) \<in> set qs. \<exists>r. search c q ty 1 = Inr r \<and> empty_items ty r"
  shows "for_each search_one qs s =
     (Inr (), s\<lparr>trace := trace s @ map (\<lambda>(q, ty). Call (Search q ty 1)) qs\<rparr>)"
  using assms
proof (induction qs arbitrary: s)
  case Nil
  then show ?case by (simp add: py_simps)
next
  case (Cons x qs)
  obtain q ty where x: "x = (q, ty)" by (cases x)
  from Cons.prems(2) x obtain r where r: "search c q ty 1 = Inr r" "empty_items ty r"
    by auto
  let ?s' = "s\<lparr>trace := trace s @ [Call (Search q ty 1)]\<rparr>"
  have one: "search_one (q, ty) s = (Inr (), ?s')"
    by (rule search_one_skips [OF Cons.prems(1) r])
  have "sp ?s' = Some c"
    using Cons.prems(1) by simp
  moreover have "\<forall>(q, ty) \<in> set qs. \<exists>r. search c q ty 1 = Inr r \<and> empty_items ty r"
    using Cons.prems(2) by simp
  ultimately have "for_each search_one qs ?s' =
      (Inr (), ?s'\<lparr>trace := trace ?s' @ map (\<lambda>(q, ty). Call (Search q ty 1)) qs\<rparr>)"
    by (rule Cons.IH)
  then show ?case
    by (simp add: py_simps one x)
qed

lemma search_functionality_body_outcome:
  "fst (search_functionality_body s) =
     (case fst (for_each search_one search_queries s) of
        Inl e \<Rightarrow> Inl e | Inr u \<Rightarrow> Inr (Some True))"
  by (cases "for_each search_one search_queries s")
     (auto simp: search_functionality_body_def py_simps print_simps call_defs split: sum.splits)

text \<open>When a turn of the search loop, and the loop, returns.\<close>

lemma print_item_returns:
  "fst (print_item ty item s) = Inr () \<longleftrightarrow> item_printable ty item"
  by (auto simp: print_item_def item_printable_def py_simps print_simps split: sum.splits)

lemma search_one_returns:
  "fst (search_one (q, ty) s) = Inr () \<longleftrightarrow>
     (\<exists>c r. sp s = Some c \<and> search c q ty 1 = Inr r \<and> query_passes ty r)"
  by (auto simp: search_one_def query_passes_def py_simps print_simps call_defs
      print_item_returns split: option.splits sum.splits prod.splits)

lemma search_one_sp: "sp (snd (search_one x s)) = sp s"
  using quiet_search_one [of x] by (simp add: quiet_def)

lemma search_loop_returns:
  "fst (for_each search_one qs s) = Inr () \<longleftrightarrow>
     (\<forall>(q, ty) \<in> set qs. \<exists>c r. sp s = Some c \<and> search c q ty 1 = Inr r \<and> query_passes ty r)"
proof (induction qs arbitrary: s)
  case Nil
  then show ?case by (simp add: py_simps)
next
  case (Cons x qs)
  obtain q ty where x: "x = (q, ty)" by (cases x)
  obtain u s' where one: "search_one (q, ty) s = (u, s')" by (cases "search_one (q, ty) s")
  have sp': "sp s' = sp s"
    using search_one_sp [of "(q, ty)" s] one by simp
  have fst1: "u = Inr () \<longleftrightarrow>
      (\<exists>c r. sp s = Some c \<and> search c q ty 1 = Inr r \<and> query_passes ty r)"
    using search_one_returns [of q ty s] one by simp
  show ?case
  proof (cases u)
    case (Inl e)
    then show ?thesis
      using fst1 by (simp add: py_simps one x)
  next
    case (Inr v)
    then have "fst (for_each search_one (x # qs) s) = fst (for_each search_one qs s')"
      by (simp add: py_simps one x)
    then show ?thesis
      using Cons.IH [of s'] fst1 Inr by (simp add: x sp')
  qed
qed

lemma empty_items_passes: "empty_items ty r \<Longrightarrow> query_passes ty r"
  by (auto simp: empty_items_def query_passes_def split: sum.splits)

text \<open>Four of the six checks return a boolean from every state.\<close>

lemma four_checks_return_booleans:
  "fst (test_environment_variables lib s) = Inr (Some True) \<or>
   fst (test_environment_variables lib s) = Inr (Some False)"
  "fst (test_authentication lib s) = Inr (Some True) \<or>
   fst (test_authentication lib s) = Inr (Some False)"
  "fst (test_api_connection s) = Inr (Some True) \<or>
   fst (test_api_connection s) = Inr (Some False)"
  "fst (test_search_functionality s) = Inr (Some True) \<or>
   fst (test_search_functionality s) = Inr (Some False)"
proof -
  show "fst (test_environment_variables lib s) = Inr (Some True) \<or>
      fst (test_environment_variables lib s) = Inr (Some False)"
    by (simp add: test_environment_variables_eq Let_def)
  show "fst (test_authentication lib s) = Inr (Some True) \<or>
      fst (test_authentication lib s) = Inr (Some False)"
    unfolding test_authentication_def after_header
    by (rule guarded_boolean)
      (auto simp: authentication_body_cases Let_def split: sum.splits)
  show "fst (test_api_connection s) = Inr (Some True) \<or>
      fst (test_api_connection s) = Inr (Some False)"
    unfolding test_api_connection_def after_header
    by (rule guarded_boolean) (rule api_connection_body_boolean)
  show "fst (test_search_functionality s) = Inr (Some True) \<or>
      fst (test_search_functionality s) = Inr (Some False)"
    unfolding test_search_functionality_def after_header
    by (rule guarded_boolean)
      (simp add: search_functionality_body_outcome split: sum.splits)
qed

section \<open>Properties of the runner\<close>

text \<open>
  Claim C1. \<open>run_all_tests\<close> never raises; from any state and with any library it enters the six
  checks once each in the order environment, authentication, API connection, playlist access,
  search functionality, audio features, whatever each of them met, and prints the summary
  after them. For any list of tests, also tests that raise, the loop is the fold of
  \<open>after_test\<close>: every test runs once, in order, on the state the one before it left, a raised
  exception is reported and the next test runs, and the summary is printed on the final state.
\<close>

theorem run_all_tests_runs_every_check:
  "fst (run_all_tests lib s) = Inr () \<and>
   headers (trace (snd (run_all_tests lib s))) =
     headers (trace s) @
       [''Starting Spotify API Test Suite'',
        ''Testing Environment Variables'', ''Testing Authentication'',
        ''Testing API Connection'', ''Testing Playlist Access'',
        ''Testing Search Functionality'', ''Testing Audio Features'',
        ''Test Summary''] \<and>
   (\<forall>ts. run_tests ts s =
      print_summary (foldl after_test (entered ''Starting Spotify API Test Suite'' s) ts) \<and>
      fst (run_tests ts s) = Inr ())"
  by (simp add: run_all_tests_def run_tests_eq print_summary_effect tests_headers entered_simps)

theorem run_all_tests_runs_every_check_witness:
  "fst (run_all_tests rejecting_library fresh) = Inr () \<and>
   headers (trace (snd (run_all_tests rejecting_library fresh))) =
       [''Starting Spotify API Test Suite'',
        ''Testing Environment Variables'', ''Testing Authentication'',
        ''Testing API Connection'', ''Testing Playlist Access'',
        ''Testing Search Functionality'', ''Testing Audio Features'',
        ''Test Summary''] \<and>
   headers (trace (snd (run_tests
       [(''crashing_test'', crashing_test), (''test_audio_features'', test_audio_features)]
       fresh))) =
       [''Starting Spotify API Test Suite'', ''Testing Audio Features'', ''Test Summary'']"
proof -
  have empty: "headers (trace fresh) = []"
    by (simp add: fresh_def SpotifyAPITester_def unconfigured_def)
  have crash: "headers (trace (after_test s (''crashing_test'', crashing_test))) = headers (trace s)"
    for s
    by (simp add: after_test_def crashing_test_def lift_def headers_append)
  from run_all_tests_runs_every_check [of rejecting_library fresh] show ?thesis
    by (simp add: empty crash print_summary_effect entered_simps
        after_check(2) [OF check_audio_features])
qed

section \<open>Properties of the summary\<close>

text \<open>
  Claim C2. On a tester whose results have the five keys of the constructor, \<open>print_summary\<close>
  prints one line of counts: the number of entries that are true, out of 5. The audio-features
  check assigns no entry, so the counts printed after it are those of the results before it,
  whatever it met and returned.
\<close>

theorem print_summary_counts_recorded_entries:
  assumes "map fst (results s) = check_names"
  shows "overalls (trace (snd (print_summary s))) = overalls (trace s) @ [(passed_count s, 5)] \<and>
    results (snd (test_audio_features s)) = results s \<and>
    overalls (trace (snd (print_summary (snd (test_audio_features s))))) =
      overalls (trace s) @ [(passed_count s, 5)]"
proof -
  have len: "length (results s) = 5"
    using assms by (rule five_entries)
  show ?thesis
    by (simp add: print_summary_effect audio_features_effect sum_values_filter passed_count_def
        len)
qed

theorem print_summary_counts_recorded_entries_witness:
  "map fst (results (snd (test_environment_variables (library_with sample_client)
      (SpotifyAPITester configured)))) = check_names \<and>
   overalls (trace (snd (print_summary (snd (test_audio_features
     (snd (test_environment_variables (library_with sample_client)
        (SpotifyAPITester configured)))))))) = [(1, 5)]"
proof -
  let ?s = "snd (test_environment_variables (library_with sample_client)
      (SpotifyAPITester configured))"
  have r: "results ?s =
     [(''environment'', True), (''authentication'', False), (''api_connection'', False),
      (''playlist_access'', False), (''search_functionality'', False)]"
    by (simp add: test_environment_variables_eq library_with_def SpotifyAPITester_def
        configured_def check_names_def credential_def present_def Let_def)
  have t: "overalls (trace ?s) = []"
    by (simp add: test_environment_variables_eq library_with_def SpotifyAPITester_def
        configured_def credential_def present_def Let_def)
  have k: "map fst (results ?s) = check_names"
    by (simp add: r check_names_def)
  from print_summary_counts_recorded_entries [OF k] k show ?thesis
    by (simp add: t passed_count_def r)
qed

section \<open>What the checks return\<close>

text \<open>
  Claim C3. Not every check returns a boolean on every path: \<open>test_playlist_access\<close> falls off
  its end, returning \<open>None\<close>, when the playlist fetch answers with a false value, and
  \<open>test_audio_features\<close> does when the search finds no track or the service has no features
  for the track.
\<close>

theorem checks_that_return_none:
  "fst (test_playlist_access (tester_with (answering (Inr PNone)))) = Inr None \<and>
   fst (test_audio_features (tester_with silent_client)) = Inr None \<and>
   fst (test_audio_features (tester_with featureless_client)) = Inr None"
proof -
  have "fst (test_playlist_access (tester_with (answering (Inr PNone)))) = Inr None"
    by (simp add: test_playlist_access_def playlist_access_body_def py_simps print_simps
        call_defs sample_defs)
  moreover have "fst (test_audio_features (tester_with silent_client)) = Inr None"
    by (simp add: test_audio_features_def audio_features_body_def py_simps print_simps
        call_defs sample_defs silent_client_def no_items_of_def true_and_items_def and_then_def)
  moreover have "fst (test_audio_features (tester_with featureless_client)) = Inr None"
    by (simp add: test_audio_features_def audio_features_body_def py_simps print_simps
        call_defs sample_defs featureless_client_def sample_client_def sample_item_def
        true_and_items_def and_then_def)
  ultimately show ?thesis by blast
qed

section \<open>The playlist check\<close>

text \<open>
  Claim C4. \<open>test_playlist_access\<close> returns \<open>True\<close> exactly when the playlist fetch answers with
  a true (non-empty) object and nothing in its \<open>try\<close> block raises; it records the entry
  exactly when it returns \<open>True\<close>. Whenever the block raises, the exception is caught, the
  failure is printed and the check returns \<open>False\<close>; an exception of the nested fetch of the
  tracks is one such case.
\<close>

theorem test_playlist_access_outcome:
  "(fst (test_playlist_access s) = Inr (Some True) \<longleftrightarrow>
      (\<exists>c p. sp s = Some c \<and> playlist c playlist_id = Inr p \<and> truthy p) \<and>
      \<not> isl (fst (playlist_access_body (entered ''Testing Playlist Access'' s)))) \<and>
   results (snd (test_playlist_access s)) =
     (if fst (test_playlist_access s) = Inr (Some True)
      then AList.update ''playlist_access'' True (results s) else results s) \<and>
   (isl (fst (playlist_access_body (entered ''Testing Playlist Access'' s))) \<longrightarrow>
      fst (test_playlist_access s) = Inr (Some False) \<and>
      (\<exists>e. last (trace (snd (test_playlist_access s))) =
             Failure ''Playlist access test failed: '' (Some e))) \<and>
   (\<forall>c p e. sp s = Some c \<and> playlist c playlist_id = Inr p \<and> truthy p \<and>
      playlist_tracks c playlist_id 3 = Inl e \<longrightarrow>
      fst (test_playlist_access s) = Inr (Some False))"
proof -
  let ?s1 = "entered ''Testing Playlist Access'' s"
  let ?msg = "''Playlist access test failed: ''"
  have eq: "test_playlist_access s =
      try_except playlist_access_body
        (\<lambda>e. then_py (print_error ?msg (Some e)) (ret (Some False))) ?s1"
    by (simp add: test_playlist_access_def after_header)
  have sp1: "sp ?s1 = sp s"
    by (simp add: entered_simps)
  have a: "fst (test_playlist_access s) = Inr (Some True) \<longleftrightarrow>
      (\<exists>c p. sp s = Some c \<and> playlist c playlist_id = Inr p \<and> truthy p) \<and>
      \<not> isl (fst (playlist_access_body ?s1))"
  proof
    assume "fst (test_playlist_access s) = Inr (Some True)"
    then have t: "fst (playlist_access_body ?s1) = Inr (Some True)"
      by (simp add: eq guarded_true)
    from playlist_access_body_returned [OF t] obtain c p where
      "sp s = Some c" "playlist c playlist_id = Inr p"
      "Some True = (if truthy p then Some True else None)"
      by (auto simp: sp1)
    then show "(\<exists>c p. sp s = Some c \<and> playlist c playlist_id = Inr p \<and> truthy p) \<and>
      \<not> isl (fst (playlist_access_body ?s1))"
      using t by (auto split: if_splits)
  next
    assume r: "(\<exists>c p. sp s = Some c \<and> playlist c playlist_id = Inr p \<and> truthy p) \<and>
      \<not> isl (fst (playlist_access_body ?s1))"
    then obtain c p where cp: "sp s = Some c" "playlist c playlist_id = Inr p" "truthy p"
      by blast
    from r obtain x where x: "fst (playlist_access_body ?s1) = Inr x"
      by (cases "fst (playlist_access_body ?s1)") auto
    from playlist_access_body_returned [OF x] cp have "x = Some True"
      by (auto simp: sp1)
    then show "fst (test_playlist_access s) = Inr (Some True)"
      using x by (simp add: eq guarded_true)
  qed
  have b: "results (snd (test_playlist_access s)) =
     (if fst (test_playlist_access s) = Inr (Some True)
      then AList.update ''playlist_access'' True (results s) else results s)"
    by (rule playlist_access_effect)
  have c: "isl (fst (playlist_access_body ?s1)) \<longrightarrow>
      fst (test_playlist_access s) = Inr (Some False) \<and>
      (\<exists>e. last (trace (snd (test_playlist_access s))) = Failure ?msg (Some e))"
    unfolding eq using guarded_raised [of playlist_access_body ?s1 ?msg] by blast
  have d: "\<forall>c p e. sp s = Some c \<and> playlist c playlist_id = Inr p \<and> truthy p \<and>
      playlist_tracks c playlist_id 3 = Inl e \<longrightarrow>
      fst (test_playlist_access s) = Inr (Some False)"
  proof (intro allI impI)
    fix c p e
    assume h: "sp s = Some c \<and> playlist c playlist_id = Inr p \<and> truthy p \<and>
      playlist_tracks c playlist_id 3 = Inl e"
    then have "isl (fst (playlist_access_body ?s1))"
      using playlist_access_body_tracks_raise [of ?s1 c p e] by (simp add: sp1)
    then show "fst (test_playlist_access s) = Inr (Some False)"
      using c by blast
  qed
  from a b c d show ?thesis by blast
qed

theorem test_playlist_access_outcome_witness:
  "sp (tester_with dropping_client) = Some dropping_client \<and>
   playlist dropping_client playlist_id = Inr sample_playlist \<and>
   truthy sample_playlist \<and>
   playlist_tracks dropping_client playlist_id 3 = Inl (LibraryError ''connection dropped'') \<and>
   fst (test_playlist_access (tester_with dropping_client)) = Inr (Some False) \<and>
   results (snd (test_playlist_access (tester_with dropping_client))) =
     results (tester_with dropping_client) \<and>
   fst (test_playlist_access (tester_with sample_client)) = Inr (Some True) \<and>
   results (snd (test_playlist_access (tester_with sample_client))) =
     [(''environment'', False), (''authentication'', False), (''api_connection'', False),
      (''playlist_access'', True), (''search_functionality'', False)]"
proof -
  have h: "sp (tester_with dropping_client) = Some dropping_client \<and>
      playlist dropping_client playlist_id = Inr sample_playlist \<and>
      truthy sample_playlist \<and>
      playlist_tracks dropping_client playlist_id 3 = Inl (LibraryError ''connection dropped'')"
    by (simp add: tester_with_def dropping_client_def sample_client_def sample_playlist_def)
  have ok: "fst (test_playlist_access (tester_with sample_client)) = Inr (Some True)"
    by (simp add: test_playlist_access_def playlist_access_body_def py_simps print_simps
        call_defs sample_defs sample_client_def sample_playlist_def sample_item_def
        sample_track_def playlist_id_def true_and_has_def and_then_def)
  have r: "results (tester_with sample_client) =
     [(''environment'', False), (''authentication'', False), (''api_connection'', False),
      (''playlist_access'', False), (''search_functionality'', False)]"
    by (simp add: sample_defs)
  from test_playlist_access_outcome [of "tester_with dropping_client"]
    test_playlist_access_outcome [of "tester_with sample_client"] h ok
  show ?thesis
    by (auto simp: r)
qed

section \<open>The connection check\<close>

text \<open>
  Claim C5, as stated, fails: a response whose track list has an item makes the check fail
  when the item lacks a field the check prints; here the one track has an empty list of
  artists. And a tester on which no client is set issues no search.
\<close>

theorem test_api_connection_artistless_counterexample:
  "search (answering (Inr artistless)) ''artist:Ed Sheeran'' ''track'' 1 = Inr artistless \<and>
   has_track_item artistless \<and>
   fst (test_api_connection (tester_with (answering (Inr artistless)))) = Inr (Some False) \<and>
   calls (trace (snd (test_api_connection fresh))) = []"
  by (simp add: test_api_connection_def api_connection_body_def py_simps print_simps call_defs
      sample_defs artistless_def has_track_item_def true_and_has_def and_then_def)

text \<open>
  Claim C5, amended. \<open>test_api_connection\<close> returns \<open>True\<close> exactly when a client is set, its
  search for the fixed artist (type track, limit 1) answers with a true response that contains
  a track list, the list has a first item, and that item carries the name, the first artist's
  name and the duration that the check prints. In every other case it returns \<open>False\<close>. It
  records the entry exactly when it returns \<open>True\<close> and otherwise leaves the results as they
  were. With a client set it issues that one search and no other call; with none it issues no
  call.
\<close>

theorem test_api_connection_outcome:
  "(fst (test_api_connection s) = Inr (Some True) \<longleftrightarrow>
      (\<exists>c r track. sp s = Some c \<and> search c ''artist:Ed Sheeran'' ''track'' 1 = Inr r \<and>
         true_and_has r ''tracks'' = Inr True \<and>
         path r [Key ''tracks'', Key ''items'', Zero] = Inr track \<and> printable_track track)) \<and>
   (fst (test_api_connection s) = Inr (Some True) \<or>
    fst (test_api_connection s) = Inr (Some False)) \<and>
   results (snd (test_api_connection s)) =
     (if fst (test_api_connection s) = Inr (Some True)
      then AList.update ''api_connection'' True (results s) else results s) \<and>
   calls (trace (snd (test_api_connection s))) =
     calls (trace s) @
       (case sp s of None \<Rightarrow> [] | Some c \<Rightarrow> [Search ''artist:Ed Sheeran'' ''track'' 1])"
proof -
  let ?s1 = "entered ''Testing API Connection'' s"
  have eq: "test_api_connection s =
      try_except api_connection_body
        (\<lambda>e. then_py (print_error ''API connection test failed: '' (Some e))
               (ret (Some False))) ?s1"
    by (simp add: test_api_connection_def after_header)
  have a: "fst (test_api_connection s) = Inr (Some True) \<longleftrightarrow>
      (\<exists>c r track. sp s = Some c \<and> search c ''artist:Ed Sheeran'' ''track'' 1 = Inr r \<and>
         true_and_has r ''tracks'' = Inr True \<and>
         path r [Key ''tracks'', Key ''items'', Zero] = Inr track \<and> printable_track track)"
    by (simp add: eq guarded_true api_connection_body_returns_true entered_simps)
  have b: "fst (test_api_connection s) = Inr (Some True) \<or>
      fst (test_api_connection s) = Inr (Some False)"
    by (rule four_checks_return_booleans)
  have c: "results (snd (test_api_connection s)) =
     (if fst (test_api_connection s) = Inr (Some True)
      then AList.update ''api_connection'' True (results s) else results s)"
    by (rule api_connection_effect)
  have d: "calls (trace (snd (test_api_connection s))) =
     calls (trace s) @
       (case sp s of None \<Rightarrow> [] | Some c \<Rightarrow> [Search ''artist:Ed Sheeran'' ''track'' 1])"
    by (simp add: eq guarded_calls api_connection_body_calls entered_simps)
  from a b c d show ?thesis by blast
qed

theorem test_api_connection_outcome_witness:
  "fst (test_api_connection (tester_with sample_client)) = Inr (Some True) \<and>
   calls (trace (snd (test_api_connection (tester_with sample_client)))) =
     [Search ''artist:Ed Sheeran'' ''track'' 1] \<and>
   fst (test_api_connection (tester_with silent_client)) = Inr (Some False) \<and>
   results (snd (test_api_connection (tester_with silent_client))) =
     results (tester_with silent_client) \<and>
   fst (test_api_connection fresh) = Inr (Some False) \<and>
   calls (trace (snd (test_api_connection fresh))) = []"
  using test_api_connection_outcome [of "tester_with sample_client"]
    test_api_connection_outcome [of "tester_with silent_client"]
    test_api_connection_outcome [of fresh]
  by (auto simp: sample_defs sample_client_def silent_client_def no_items_of_def sample_item_def
      true_and_has_def and_then_def printable_track_def)

section \<open>The search check\<close>

text \<open>
  Claim C6. \<open>test_search_functionality\<close> runs the loop over the four fixed pairs of query and
  type; it returns \<open>True\<close>, and records the entry, exactly when the loop completes without
  raising, and returns \<open>False\<close> with the results untouched otherwise. The loop completes
  exactly when a client is set and each of the four searches answers with a response the turn
  passes through: so with no client, with a search that raises, or with a first item that
  lacks a printed field, the check returns \<open>False\<close>. A query whose response has an empty list
  of items passes: it prints nothing and lets the loop go on; when all four are so, the check
  issues the four searches, prints its success and returns \<open>True\<close>.
\<close>

theorem test_search_functionality_outcome:
  "(fst (test_search_functionality s) = Inr (Some True) \<longleftrightarrow>
      fst (for_each search_one search_queries (entered ''Testing Search Functionality'' s)) =
        Inr ()) \<and>
   (fst (test_search_functionality s) = Inr (Some True) \<longleftrightarrow>
      (\<exists>c. sp s = Some c \<and>
         (\<forall>(q, ty) \<in> set search_queries. \<exists>r. search c q ty 1 = Inr r \<and> query_passes ty r))) \<and>
   (fst (test_search_functionality s) = Inr (Some True) \<or>
    fst (test_search_functionality s) = Inr (Some False)) \<and>
   results (snd (test_search_functionality s)) =
     (if fst (test_search_functionality s) = Inr (Some True)
      then AList.update ''search_functionality'' True (results s) else results s) \<and>
   (sp s = None \<longrightarrow> fst (test_search_functionality s) = Inr (Some False)) \<and>
   (\<forall>c q ty e. sp s = Some c \<and> (q, ty) \<in> set search_queries \<and> search c q ty 1 = Inl e \<longrightarrow>
      fst (test_search_functionality s) = Inr (Some False)) \<and>
   (\<forall>c q ty r. sp s = Some c \<and> (q, ty) \<in> set search_queries \<and> search c q ty 1 = Inr r \<and>
      \<not> query_passes ty r \<longrightarrow>
      fst (test_search_functionality s) = Inr (Some False)) \<and>
   (fst (test_search_functionality s) = Inr (Some False) \<longrightarrow>
      (\<exists>e. last (trace (snd (test_search_functionality s))) =
             Failure ''Search functionality test failed: '' (Some e))) \<and>
   (\<forall>ty r. empty_items ty r \<longrightarrow> query_passes ty r) \<and>
   (\<forall>c q ty r s0. sp s0 = Some c \<and> search c q ty 1 = Inr r \<and> empty_items ty r \<longrightarrow>
      search_one (q, ty) s0 = (Inr (), s0\<lparr>trace := trace s0 @ [Call (Search q ty 1)]\<rparr>)) \<and>
   (\<forall>c. sp s = Some c \<and>
      (\<forall>(q, ty) \<in> set search_queries. \<exists>r. search c q ty 1 = Inr r \<and> empty_items ty r) \<longrightarrow>
      fst (test_search_functionality s) = Inr (Some True) \<and>
      trace (snd (test_search_functionality s)) =
        trace s @ [Header ''Testing Search Functionality''] @
        map (\<lambda>(q, ty). Call (Search q ty 1)) search_queries @
        [Success ''Search functionality working!''])"
proof -
  let ?s1 = "entered ''Testing Search Functionality'' s"
  let ?loop = "for_each search_one search_queries ?s1"
  let ?msg = "''Search functionality test failed: ''"
  let ?t = "fst (test_search_functionality s)"
  have eq: "test_search_functionality s =
      try_except search_functionality_body
        (\<lambda>e. then_py (print_error ?msg (Some e)) (ret (Some False))) ?s1"
    by (simp add: test_search_functionality_def after_header)
  have a: "?t = Inr (Some True) \<longleftrightarrow> fst ?loop = Inr ()"
    by (simp add: eq guarded_true search_functionality_body_outcome split: sum.splits)
  have each: "fst ?loop = Inr () \<longleftrightarrow>
      (\<forall>(q, ty) \<in> set search_queries.
         \<exists>c r. sp s = Some c \<and> search c q ty 1 = Inr r \<and> query_passes ty r)"
    by (simp add: search_loop_returns entered_simps)
  have shape: "(\<forall>(q, ty) \<in> set search_queries.
         \<exists>c r. sp s = Some c \<and> search c q ty 1 = Inr r \<and> query_passes ty r) \<longleftrightarrow>
      (\<exists>c. sp s = Some c \<and>
         (\<forall>(q, ty) \<in> set search_queries. \<exists>r. search c q ty 1 = Inr r \<and> query_passes ty r))"
    by (cases "sp s") (auto simp: search_queries_def)
  have a2: "?t = Inr (Some True) \<longleftrightarrow>
      (\<exists>c. sp s = Some c \<and>
         (\<forall>(q, ty) \<in> set search_queries. \<exists>r. search c q ty 1 = Inr r \<and> query_passes ty r))"
    using a each shape by simp
  have b: "?t = Inr (Some True) \<or> ?t = Inr (Some False)"
    by (rule four_checks_return_booleans)
  have c: "results (snd (test_search_functionality s)) =
     (if ?t = Inr (Some True)
      then AList.update ''search_functionality'' True (results s) else results s)"
    by (rule search_functionality_effect)
  have f1: "sp s = None \<longrightarrow> ?t = Inr (Some False)"
    using a2 b by auto
  have f2: "\<forall>c q ty e. sp s = Some c \<and> (q, ty) \<in> set search_queries \<and>
      search c q ty 1 = Inl e \<longrightarrow> ?t = Inr (Some False)"
  proof (intro allI impI)
    fix c q ty e
    assume h: "sp s = Some c \<and> (q, ty) \<in> set search_queries \<and> search c q ty 1 = Inl e"
    have "?t \<noteq> Inr (Some True)"
    proof
      assume "?t = Inr (Some True)"
      then obtain c' where c': "sp s = Some c'"
        "\<forall>(q, ty) \<in> set search_queries. \<exists>r. search c' q ty 1 = Inr r \<and> query_passes ty r"
        using a2 by blast
      then have "c' = c" using h by simp
      then have "\<exists>r. search c q ty 1 = Inr r" using c'(2) h by blast
      then show False using h by simp
    qed
    then show "?t = Inr (Some False)" using b by blast
  qed
  have f3: "\<forall>c q ty r. sp s = Some c \<and> (q, ty) \<in> set search_queries \<and>
      search c q ty 1 = Inr r \<and> \<not> query_passes ty r \<longrightarrow> ?t = Inr (Some False)"
  proof (intro allI impI)
    fix c q ty r
    assume h: "sp s = Some c \<and> (q, ty) \<in> set search_queries \<and> search c q ty 1 = Inr r \<and>
      \<not> query_passes ty r"
    have "?t \<noteq> Inr (Some True)"
    proof
      assume "?t = Inr (Some True)"
      then obtain c' where c': "sp s = Some c'"
        "\<forall>(q, ty) \<in> set search_queries. \<exists>r. search c' q ty 1 = Inr r \<and> query_passes ty r"
        using a2 by blast
      then have "c' = c" using h by simp
      then have "\<exists>r'. search c q ty 1 = Inr r' \<and> query_passes ty r'" using c'(2) h by blast
      then show False using h by simp
    qed
    then show "?t = Inr (Some False)" using b by blast
  qed
  have f4: "?t = Inr (Some False) \<longrightarrow>
      (\<exists>e. last (trace (snd (test_search_functionality s))) = Failure ?msg (Some e))"
  proof
    assume f: "?t = Inr (Some False)"
    have "isl (fst (search_functionality_body ?s1))"
    proof (cases "fst (search_functionality_body ?s1)")
      case (Inl e)
      then show ?thesis by simp
    next
      case (Inr x)
      then have "x = Some True"
        by (simp add: search_functionality_body_outcome split: sum.splits)
      then have "?t = Inr (Some True)"
        using Inr by (simp add: eq guarded_true)
      then show ?thesis using f by simp
    qed
    then show "\<exists>e. last (trace (snd (test_search_functionality s))) = Failure ?msg (Some e)"
      unfolding eq by (rule guarded_raised)
  qed
  have p: "\<forall>ty r. empty_items ty r \<longrightarrow> query_passes ty r"
    using empty_items_passes by blast
  have d: "\<forall>c q ty r s0. sp s0 = Some c \<and> search c q ty 1 = Inr r \<and> empty_items ty r \<longrightarrow>
      search_one (q, ty) s0 = (Inr (), s0\<lparr>trace := trace s0 @ [Call (Search q ty 1)]\<rparr>)"
    using search_one_skips by blast
  have e: "\<forall>c. sp s = Some c \<and>
      (\<forall>(q, ty) \<in> set search_queries. \<exists>r. search c q ty 1 = Inr r \<and> empty_items ty r) \<longrightarrow>
      ?t = Inr (Some True) \<and>
      trace (snd (test_search_functionality s)) =
        trace s @ [Header ''Testing Search Functionality''] @
        map (\<lambda>(q, ty). Call (Search q ty 1)) search_queries @
        [Success ''Search functionality working!'']"
  proof (intro allI impI)
    fix c
    assume h: "sp s = Some c \<and>
      (\<forall>(q, ty) \<in> set search_queries. \<exists>r. search c q ty 1 = Inr r \<and> empty_items ty r)"
    then have "sp ?s1 = Some c"
      by (simp add: entered_simps)
    then have loop: "?loop =
        (Inr (), ?s1\<lparr>trace := trace ?s1 @ map (\<lambda>(q, ty). Call (Search q ty 1)) search_queries\<rparr>)"
      using h by (intro search_loop_skips) auto
    show "?t = Inr (Some True) \<and>
      trace (snd (test_search_functionality s)) =
        trace s @ [Header ''Testing Search Functionality''] @
        map (\<lambda>(q, ty). Call (Search q ty 1)) search_queries @
        [Success ''Search functionality working!'']"
      unfolding eq
      by (simp add: py_simps print_simps search_functionality_body_def loop set_result_def)
        (simp add: entered_def)
  qed
  from a a2 b c f1 f2 f3 f4 p d e show ?thesis by blast
qed

theorem test_search_functionality_outcome_witness:
  "sp (tester_with silent_client) = Some silent_client \<and>
   fst (test_search_functionality (tester_with silent_client)) = Inr (Some True) \<and>
   trace (snd (test_search_functionality (tester_with silent_client))) =
     [Header ''Testing Search Functionality'',
      Call (Search ''Dua Lipa'' ''artist'' 1),
      Call (Search ''Blinding Lights'' ''track'' 1),
      Call (Search ''Today's Top Hits'' ''playlist'' 1),
      Call (Search ''Future Nostalgia'' ''album'' 1),
      Success ''Search functionality working!''] \<and>
   fst (test_search_functionality (tester_with sample_client)) = Inr (Some True) \<and>
   sp fresh = None \<and>
   fst (test_search_functionality fresh) = Inr (Some False) \<and>
   results (snd (test_search_functionality fresh)) = results fresh \<and>
   search unreachable_client ''Dua Lipa'' ''artist'' 1 = Inl (LibraryError ''timed out'') \<and>
   fst (test_search_functionality (tester_with unreachable_client)) = Inr (Some False) \<and>
   search null_item_client ''Dua Lipa'' ''artist'' 1 =
     Inr (PDict [(''artists'', PDict [(''items'', PList [PNone])])]) \<and>
   \<not> query_passes ''artist'' (PDict [(''artists'', PDict [(''items'', PList [PNone])])]) \<and>
   fst (test_search_functionality (tester_with null_item_client)) = Inr (Some False)"
proof -
  have sp: "sp (tester_with silent_client) = Some silent_client"
    by (simp add: tester_with_def)
  have empty: "\<forall>(q, ty) \<in> set search_queries.
      \<exists>r. search silent_client q ty 1 = Inr r \<and> empty_items ty r"
    by (simp add: search_queries_def silent_client_def no_items_of_def empty_items_def
        true_and_has_def and_then_def)
  have t: "trace (tester_with silent_client) = []"
    by (simp add: sample_defs)
  from test_search_functionality_outcome [of "tester_with silent_client"] sp empty
  have "fst (test_search_functionality (tester_with silent_client)) = Inr (Some True) \<and>
      trace (snd (test_search_functionality (tester_with silent_client))) =
        trace (tester_with silent_client) @ [Header ''Testing Search Functionality''] @
        map (\<lambda>(q, ty). Call (Search q ty 1)) search_queries @
        [Success ''Search functionality working!'']"
    by blast
  then have silent: "fst (test_search_functionality (tester_with silent_client)) =
      Inr (Some True) \<and>
    trace (snd (test_search_functionality (tester_with silent_client))) =
     [Header ''Testing Search Functionality'',
      Call (Search ''Dua Lipa'' ''artist'' 1),
      Call (Search ''Blinding Lights'' ''track'' 1),
      Call (Search ''Today's Top Hits'' ''playlist'' 1),
      Call (Search ''Future Nostalgia'' ''album'' 1),
      Success ''Search functionality working!'']"
    by (simp add: t search_queries_def)
  have sps: "sp (tester_with sample_client) = Some sample_client"
    by (simp add: tester_with_def)
  have good: "\<forall>(q, ty) \<in> set search_queries.
      \<exists>r. search sample_client q ty 1 = Inr r \<and> query_passes ty r"
    by (simp add: search_queries_def sample_client_def sample_item_def query_passes_def
        item_printable_def true_and_has_def and_then_def)
  from test_search_functionality_outcome [of "tester_with sample_client"] sps good
  have sample: "fst (test_search_functionality (tester_with sample_client)) = Inr (Some True)"
    by blast
  have none: "sp fresh = None"
    by (simp add: sample_defs)
  from test_search_functionality_outcome [of fresh] none
  have unset: "fst (test_search_functionality fresh) = Inr (Some False) \<and>
      results (snd (test_search_functionality fresh)) = results fresh"
    by simp
  have spu: "sp (tester_with unreachable_client) = Some unreachable_client"
    by (simp add: tester_with_def)
  have raises: "search unreachable_client ''Dua Lipa'' ''artist'' 1 =
      Inl (LibraryError ''timed out'')"
    by (simp add: unreachable_client_def answering_def)
  have first_query: "(''Dua Lipa'', ''artist'') \<in> set search_queries"
    by (simp add: search_queries_def)
  from test_search_functionality_outcome [of "tester_with unreachable_client"]
    spu raises first_query
  have unreachable: "fst (test_search_functionality (tester_with unreachable_client)) =
      Inr (Some False)"
    by blast
  have spn: "sp (tester_with null_item_client) = Some null_item_client"
    by (simp add: tester_with_def)
  have answer: "search null_item_client ''Dua Lipa'' ''artist'' 1 =
      Inr (PDict [(''artists'', PDict [(''items'', PList [PNone])])])"
    by (simp add: null_item_client_def)
  have stuck: "\<not> query_passes ''artist'' (PDict [(''artists'', PDict [(''items'', PList [PNone])])])"
    by (simp add: query_passes_def item_printable_def true_and_has_def and_then_def)
  from test_search_functionality_outcome [of "tester_with null_item_client"]
    spn answer stuck first_query
  have null: "fst (test_search_functionality (tester_with null_item_client)) =
      Inr (Some False)"
    by blast
  from sp silent sample none unset raises unreachable answer stuck null
  show ?thesis by blast
qed

section \<open>The authentication check\<close>

text \<open>
  Claim C7. When the constructor of the authenticator raises, or it returns and the
  constructor of the client raises, \<open>test_authentication\<close> returns \<open>False\<close> and leaves the
  results and the client handle as they were. In any case the handle changes only when the
  check returns \<open>True\<close>.
\<close>

theorem test_authentication_failure:
  assumes "SpotifyClientCredentials lib
             (credential (environ s) ''CLIENT_ID'' ''SPOTIFY_CLIENT_ID'')
             (credential (environ s) ''CLIENT_SECRET'' ''SPOTIFY_CLIENT_SECRET'') = Inl e \<or>
           (\<exists>auth_manager.
              SpotifyClientCredentials lib
                (credential (environ s) ''CLIENT_ID'' ''SPOTIFY_CLIENT_ID'')
                (credential (environ s) ''CLIENT_SECRET'' ''SPOTIFY_CLIENT_SECRET'') =
                  Inr auth_manager \<and>
              Spotify lib auth_manager 10 (Some 1) = Inl e)"
  shows "fst (test_authentication lib s) = Inr (Some False) \<and>
    results (snd (test_authentication lib s)) = results s \<and>
    sp (snd (test_authentication lib s)) = sp s \<and>
    (\<forall>s0. sp (snd (test_authentication lib s0)) = sp s0 \<or>
          fst (test_authentication lib s0) = Inr (Some True))"
proof -
  have "fst (test_authentication lib s) = Inr (Some False) \<and>
      results (snd (test_authentication lib s)) = results s \<and>
      sp (snd (test_authentication lib s)) = sp s"
    using assms
    by (auto simp: test_authentication_def after_header py_simps print_simps
        authentication_body_cases entered_def Let_def)
  moreover have "sp (snd (test_authentication lib s0)) = sp s0 \<or>
      fst (test_authentication lib s0) = Inr (Some True)" for s0
    by (auto simp: test_authentication_def after_header py_simps print_simps
        authentication_body_cases entered_def Let_def split: sum.splits)
  ultimately show ?thesis by blast
qed

theorem test_authentication_failure_witness:
  "SpotifyClientCredentials rejecting_library
     (credential (environ fresh) ''CLIENT_ID'' ''SPOTIFY_CLIENT_ID'')
     (credential (environ fresh) ''CLIENT_SECRET'' ''SPOTIFY_CLIENT_SECRET'') =
       Inl (LibraryError ''No client_id'') \<and>
   fst (test_authentication rejecting_library fresh) = Inr (Some False) \<and>
   results (snd (test_authentication rejecting_library fresh)) = results fresh \<and>
   sp (snd (test_authentication rejecting_library fresh)) = None \<and>
   Spotify unbuilt_library () 10 (Some 1) = Inl (LibraryError ''no session'') \<and>
   fst (test_authentication unbuilt_library fresh) = Inr (Some False) \<and>
   results (snd (test_authentication unbuilt_library fresh)) = results fresh \<and>
   sp (snd (test_authentication unbuilt_library fresh)) = None"
proof -
  have a: "SpotifyClientCredentials rejecting_library
     (credential (environ fresh) ''CLIENT_ID'' ''SPOTIFY_CLIENT_ID'')
     (credential (environ fresh) ''CLIENT_SECRET'' ''SPOTIFY_CLIENT_SECRET'') =
       Inl (LibraryError ''No client_id'')"
    by (simp add: rejecting_library_def)
  have b: "SpotifyClientCredentials unbuilt_library
     (credential (environ fresh) ''CLIENT_ID'' ''SPOTIFY_CLIENT_ID'')
     (credential (environ fresh) ''CLIENT_SECRET'' ''SPOTIFY_CLIENT_SECRET'') = Inr () \<and>
     Spotify unbuilt_library () 10 (Some 1) = Inl (LibraryError ''no session'')"
    by (simp add: unbuilt_library_def)
  have n: "sp fresh = None"
    by (simp add: sample_defs)
  from test_authentication_failure [of rejecting_library fresh "LibraryError ''No client_id''"]
    test_authentication_failure [of unbuilt_library fresh "LibraryError ''no session''"]
    a b n
  show ?thesis by auto
qed

section \<open>The environment check\<close>

text \<open>
  Claim C8. After \<open>load_dotenv\<close>, \<open>test_environment_variables\<close> returns \<open>True\<close> exactly when the
  client id is a non-empty value of \<open>CLIENT_ID\<close> or of \<open>SPOTIFY_CLIENT_ID\<close> and the secret one of
  \<open>CLIENT_SECRET\<close> or of \<open>SPOTIFY_CLIENT_SECRET\<close>, and returns \<open>False\<close> otherwise. It sets the
  entry \<open>environment\<close> exactly when it returns \<open>True\<close>, leaves the results as they were when it
  returns \<open>False\<close>, and in neither case touches another entry or the client handle.
\<close>

theorem test_environment_variables_outcome:
  "fst (test_environment_variables lib s) =
     Inr (Some ((present (load_dotenv lib (environ s) ''CLIENT_ID'') \<or>
                 present (load_dotenv lib (environ s) ''SPOTIFY_CLIENT_ID'')) \<and>
                (present (load_dotenv lib (environ s) ''CLIENT_SECRET'') \<or>
                 present (load_dotenv lib (environ s) ''SPOTIFY_CLIENT_SECRET'')))) \<and>
   results (snd (test_environment_variables lib s)) =
     (if fst (test_environment_variables lib s) = Inr (Some True)
      then AList.update ''environment'' True (results s) else results s) \<and>
   (\<forall>k. k \<noteq> ''environment'' \<longrightarrow>
      map_of (results (snd (test_environment_variables lib s))) k = map_of (results s) k) \<and>
   sp (snd (test_environment_variables lib s)) = sp s"
  by (simp add: test_environment_variables_eq Let_def present_credential update_conv')

theorem test_environment_variables_outcome_witness:
  "fst (test_environment_variables rejecting_library fresh) = Inr (Some False) \<and>
   results (snd (test_environment_variables rejecting_library fresh)) = results fresh \<and>
   fst (test_environment_variables rejecting_library (SpotifyAPITester configured)) =
     Inr (Some True) \<and>
   results (snd (test_environment_variables rejecting_library (SpotifyAPITester configured))) =
     [(''environment'', True), (''authentication'', False), (''api_connection'', False),
      (''playlist_access'', False), (''search_functionality'', False)]"
  using test_environment_variables_outcome [of rejecting_library fresh]
    test_environment_variables_outcome [of rejecting_library "SpotifyAPITester configured"]
  by (simp add: sample_defs present_def)

section \<open>The results dictionary\<close>

text \<open>
  Claim C9. The constructor gives the results dictionary its five keys. From a state with these
  keys, each of the five recording checks leaves the dictionary as it was or sets its own
  entry true, the audio-features check and the summary leave it as it was, and over a whole
  run the dictionary has grown: the same keys in the same order, every true entry still true,
  no fewer true entries. The summary of a run prints a total of 5.
\<close>

theorem results_keys_fixed_and_entries_only_set:
  assumes "map fst (results s) = check_names"
  shows "map fst (results (SpotifyAPITester p)) = check_names \<and>
    sets_only ''environment'' s (snd (test_environment_variables lib s)) \<and>
    sets_only ''authentication'' s (snd (test_authentication lib s)) \<and>
    sets_only ''api_connection'' s (snd (test_api_connection s)) \<and>
    sets_only ''playlist_access'' s (snd (test_playlist_access s)) \<and>
    sets_only ''search_functionality'' s (snd (test_search_functionality s)) \<and>
    results (snd (test_audio_features s)) = results s \<and>
    results (snd (print_summary s)) = results s \<and>
    grown (results s) (results (snd (run_all_tests lib s))) \<and>
    overalls (trace (snd (run_all_tests lib s))) =
      overalls (trace s) @ [(passed_count (snd (run_all_tests lib s)), 5)]"
proof -
  have keys: "k \<in> set check_names \<Longrightarrow> k \<in> set (map fst (results s))" for k
    by (simp add: assms)
  let ?s1 = "entered ''Starting Spotify API Test Suite'' s"
  let ?s2 = "foldl after_test ?s1 (tests lib)"
  have k1: "map fst (results ?s1) = check_names"
    by (simp add: entered_simps assms)
  have g: "grown (results s) (results ?s2)"
    using tests_grown [OF k1, of lib] by (simp add: entered_simps)
  then have "map fst (results ?s2) = check_names"
    using assms by (simp add: grown_keys)
  then have len: "length (results ?s2) = 5"
    by (rule five_entries)
  have "map fst (results (SpotifyAPITester p)) = check_names"
    by (simp add: SpotifyAPITester_def comp_def)
  moreover have "sets_only ''environment'' s (snd (test_environment_variables lib s))"
    by (rule check_sets_only [OF check_environment]) (rule keys, simp add: check_names_def)
  moreover have "sets_only ''authentication'' s (snd (test_authentication lib s))"
    by (rule check_sets_only [OF check_authentication]) (rule keys, simp add: check_names_def)
  moreover have "sets_only ''api_connection'' s (snd (test_api_connection s))"
    by (rule check_sets_only [OF check_api_connection]) (rule keys, simp add: check_names_def)
  moreover have "sets_only ''playlist_access'' s (snd (test_playlist_access s))"
    by (rule check_sets_only [OF check_playlist_access]) (rule keys, simp add: check_names_def)
  moreover have "sets_only ''search_functionality'' s (snd (test_search_functionality s))"
    by (rule check_sets_only [OF check_search_functionality])
      (rule keys, simp add: check_names_def)
  moreover have "results (snd (test_audio_features s)) = results s"
    by (rule audio_features_effect)
  moreover have "results (snd (print_summary s)) = results s"
    by (rule print_summary_effect)
  moreover have "grown (results s) (results (snd (run_all_tests lib s)))"
    using g by (simp add: run_all_tests_def run_tests_eq print_summary_effect)
  moreover have "overalls (trace (snd (run_all_tests lib s))) =
      overalls (trace s) @ [(passed_count (snd (run_all_tests lib s)), 5)]"
    by (simp add: run_all_tests_def run_tests_eq print_summary_effect tests_overalls
        entered_simps passed_count_def sum_values_filter len)
  ultimately show ?thesis by blast
qed

theorem results_keys_fixed_and_entries_only_set_witness:
  "map fst (results fresh) = check_names \<and>
    sets_only ''environment'' fresh (snd (test_environment_variables rejecting_library fresh)) \<and>
    sets_only ''authentication'' fresh (snd (test_authentication rejecting_library fresh)) \<and>
    sets_only ''api_connection'' fresh (snd (test_api_connection fresh)) \<and>
    sets_only ''playlist_access'' fresh (snd (test_playlist_access fresh)) \<and>
    sets_only ''search_functionality'' fresh (snd (test_search_functionality fresh)) \<and>
    results (snd (test_audio_features fresh)) = results fresh \<and>
    results (snd (print_summary fresh)) = results fresh \<and>
    grown (results fresh) (results (snd (run_all_tests rejecting_library fresh))) \<and>
    overalls (trace (snd (run_all_tests rejecting_library fresh))) =
      [(passed_count (snd (run_all_tests rejecting_library fresh)), 5)]"
proof -
  have k: "map fst (results fresh) = check_names"
    by (simp add: fresh_def SpotifyAPITester_def comp_def)
  have t: "trace fresh = []"
    by (simp add: fresh_def SpotifyAPITester_def unconfigured_def)
  from results_keys_fixed_and_entries_only_set [OF k, of unconfigured rejecting_library] k
  show ?thesis by (simp add: t)
qed

section \<open>Properties of the quick test\<close>

text \<open>
  Claim C10. When, after \<open>load_dotenv\<close>, the client id or the secret is absent or empty under
  both of its names, \<open>quick_test\<close> prints its two opening lines and the missing-credentials
  line, and returns \<open>False\<close>; it makes no call into the library: no authenticator, no client,
  no search.
\<close>

theorem quick_test_without_credentials:
  assumes "\<not> (present (load_dotenv lib (environ p) ''CLIENT_ID'') \<or>
               present (load_dotenv lib (environ p) ''SPOTIFY_CLIENT_ID'')) \<or>
           \<not> (present (load_dotenv lib (environ p) ''CLIENT_SECRET'') \<or>
               present (load_dotenv lib (environ p) ''SPOTIFY_CLIENT_SECRET''))"
  shows "quick_test lib p =
     (Inr (Some False),
      p\<lparr>environ := load_dotenv lib (environ p),
        trace := trace p @
          [Line ''Quick Spotify API Test'' [],
           Line (replicate 30 (CHR ''='')) [],
           Failure ''Missing credentials in .env file'' None]\<rparr>) \<and>
    calls (trace (snd (quick_test lib p))) = calls (trace p)"
  using assms
  by (auto simp: quick_test_def py_simps print_simps call_defs present_credential calls_append)

theorem quick_test_without_credentials_witness:
  "\<not> present (load_dotenv (library_with sample_client) (environ unconfigured) ''CLIENT_ID'') \<and>
   \<not> present (load_dotenv (library_with sample_client) (environ unconfigured)
        ''SPOTIFY_CLIENT_ID'') \<and>
   fst (quick_test (library_with sample_client) unconfigured) = Inr (Some False) \<and>
   calls (trace (snd (quick_test (library_with sample_client) unconfigured))) = []"
  using quick_test_without_credentials [of "library_with sample_client" unconfigured]
  by (simp add: sample_defs present_def)

end
